theory Spec2Isabelle
  imports
    Main
    "HOL-Library.Char_ord"
    "HOL-Library.List_Lexorder"
    "HOL-Library.Product_Lexorder"
    "HOL-Library.Sublist"
    "HOL-Library.Multiset"
    "HOL-Library.AList"
begin

section \<open>Strings as the program sees them\<close>

text \<open>
  Python strings are modelled as lists of 8-bit characters. The three character classes
  below are the ASCII part of what \<^verbatim>\<open>str.strip\<close>, \<^verbatim>\<open>\s\<close>, \<^verbatim>\<open>\d\<close> and \<^verbatim>\<open>\w\<close> accept:
  whitespace is tab, line feed, vertical tab, form feed, carriage return, the four
  separators 0x1C..0x1F and the blank.
\<close>

definition is_space :: "char \<Rightarrow> bool" where
  "is_space c \<longleftrightarrow>
     c \<in> set [CHR 0x09, CHR 0x0A, CHR 0x0B, CHR 0x0C, CHR 0x0D,
              CHR 0x1C, CHR 0x1D, CHR 0x1E, CHR 0x1F, CHR 0x20]"

definition is_digit :: "char \<Rightarrow> bool" where
  "is_digit c \<longleftrightarrow> c \<in> set ''0123456789''"

definition is_word :: "char \<Rightarrow> bool" where
  "is_word c \<longleftrightarrow>
     c \<in> set ''abcdefghijklmnopqrstuvwxyzABCDEFGHIJKLMNOPQRSTUVWXYZ0123456789_''"

definition lower_char :: "char \<Rightarrow> char" where
  "lower_char c =
     (case map_of (zip ''ABCDEFGHIJKLMNOPQRSTUVWXYZ'' ''abcdefghijklmnopqrstuvwxyz'') c of
        None \<Rightarrow> c
      | Some d \<Rightarrow> d)"

definition lower :: "string \<Rightarrow> string" where
  "lower s = map lower_char s"

definition lstrip :: "string \<Rightarrow> string" where
  "lstrip s = dropWhile is_space s"

definition rstrip :: "string \<Rightarrow> string" where
  "rstrip s = rev (dropWhile is_space (rev s))"

definition strip :: "string \<Rightarrow> string" where
  "strip s = rstrip (lstrip s)"

text \<open>
  The values a caller can pass where the program expects a string; \<open>truthy\<close> is
  Python's truth value and \<open>isinstance_str\<close> is \<^verbatim>\<open>isinstance(v, str)\<close>.
\<close>

datatype pyval = PyNone | PyBool bool | PyInt int | PyStr string

fun truthy :: "pyval \<Rightarrow> bool" where
  "truthy PyNone = False"
| "truthy (PyBool b) = b"
| "truthy (PyInt i) = (i \<noteq> 0)"
| "truthy (PyStr s) = (s \<noteq> [])"

fun isinstance_str :: "pyval \<Rightarrow> bool" where
  "isinstance_str (PyStr s) = True"
| "isinstance_str v = False"

text \<open>\<^verbatim>\<open>xs[:n]\<close> and \<^verbatim>\<open>DataFrame.head(n)\<close>: a negative \<open>n\<close> drops the last \<open>-n\<close> elements.\<close>

definition py_slice_to :: "int \<Rightarrow> 'a list \<Rightarrow> 'a list" where
  "py_slice_to n xs =
     (if 0 \<le> n then take (nat n) xs else take (nat (int (length xs) + n)) xs)"

definition pd_head :: "int \<Rightarrow> 'a list \<Rightarrow> 'a list" where
  "pd_head n xs =
     (if 0 \<le> n then take (nat n) xs else take (length xs - nat (- n)) xs)"

section \<open>The chart record store\<close>

text \<open>
  One row of \<^verbatim>\<open>billboard_cleaned.csv\<close> as \<^verbatim>\<open>load_billboard_data\<close> leaves it. The column
  \<^verbatim>\<open>last-week\<close> is empty for a new entry.
\<close>

record chart_entry =
  ce_date :: string
  ce_rank :: int
  ce_song :: string
  ce_artist :: string
  ce_last_week :: "int option"
  ce_peak_rank :: int
  ce_weeks_on_board :: int
  ce_year :: int

text \<open>
  What the program reads from outside its own code: the data frame \<^verbatim>\<open>df\<close> loaded at import,
  \<^verbatim>\<open>re.compile(pat, re.IGNORECASE)\<close> behind \<^verbatim>\<open>Series.str.contains(pat, case=False)\<close>
  (\<open>None\<close> when the pattern does not compile, otherwise the search predicate),
  \<^verbatim>\<open>fuzz.partial_ratio\<close>, and the language-model translator \<^verbatim>\<open>parse_query_with_flan\<close>.
\<close>

record env =
  df :: "chart_entry list"
  re_compile :: "string \<Rightarrow> (string \<Rightarrow> bool) option"
  partial_ratio :: "string \<Rightarrow> string \<Rightarrow> int"
  parse_query_with_flan :: "string \<Rightarrow> string"

section \<open>Aggregation: \<^verbatim>\<open>groupby(['song', 'artist']).agg(...)\<close>\<close>

text \<open>
  One row of an aggregated frame: the group key, \<^verbatim>\<open>'rank': 'min'\<close>, \<^verbatim>\<open>'peak-rank': 'min'\<close>,
  \<^verbatim>\<open>'weeks-on-board': 'max'\<close> and the column aggregated with \<^verbatim>\<open>'first'\<close> (\<^verbatim>\<open>year\<close> or
  \<^verbatim>\<open>last-week\<close>).
\<close>

record 'a song_stats =
  st_song :: string
  st_artist :: string
  st_rank :: int
  st_peak_rank :: int
  st_weeks_on_board :: int
  st_first :: 'a

definition st_key :: "'a song_stats \<Rightarrow> string \<times> string" where
  "st_key g = (st_song g, st_artist g)"

fun agg_insert ::
  "(chart_entry \<Rightarrow> 'a) \<Rightarrow> ('a \<Rightarrow> 'a \<Rightarrow> 'a) \<Rightarrow> chart_entry \<Rightarrow> 'a song_stats list \<Rightarrow> 'a song_stats list"
where
  "agg_insert col first e [] =
     [\<lparr>st_song = ce_song e, st_artist = ce_artist e, st_rank = ce_rank e,
       st_peak_rank = ce_peak_rank e, st_weeks_on_board = ce_weeks_on_board e,
       st_first = col e\<rparr>]"
| "agg_insert col first e (g # gs) =
     (if st_song g = ce_song e \<and> st_artist g = ce_artist e
      then g\<lparr>st_rank := min (st_rank g) (ce_rank e),
              st_peak_rank := min (st_peak_rank g) (ce_peak_rank e),
              st_weeks_on_board := max (st_weeks_on_board g) (ce_weeks_on_board e),
              st_first := first (st_first g) (col e)\<rparr> # gs
      else g # agg_insert col first e gs)"

text \<open>The groups come out sorted by their key, as \<^verbatim>\<open>groupby\<close> (\<^verbatim>\<open>sort=True\<close>) leaves them.\<close>

definition groupby_agg ::
  "(chart_entry \<Rightarrow> 'a) \<Rightarrow> ('a \<Rightarrow> 'a \<Rightarrow> 'a) \<Rightarrow> chart_entry list \<Rightarrow> 'a song_stats list"
where
  "groupby_agg col first rows =
     sort_key st_key (foldl (\<lambda>gs e. agg_insert col first e gs) [] rows)"

text \<open>\<^verbatim>\<open>'first'\<close> keeps the first value that is not null.\<close>

definition keep_first :: "int \<Rightarrow> int \<Rightarrow> int" where
  "keep_first old new = old"

definition first_valid :: "int option \<Rightarrow> int option \<Rightarrow> int option" where
  "first_valid old new = (case old of None \<Rightarrow> new | Some v \<Rightarrow> Some v)"

definition validate_year_range :: "env \<Rightarrow> int \<Rightarrow> bool" where
  "validate_year_range env y \<longleftrightarrow>
     df env \<noteq> [] \<and> Min (set (map ce_year (df env))) \<le> y \<and> y \<le> Max (set (map ce_year (df env)))"

text \<open>
  \<^verbatim>\<open>sort_values('rank')\<close> is modelled by a stable sort; pandas does not fix the order of
  equal ranks, and nothing below depends on it.
\<close>

definition get_top_songs_by_year :: "env \<Rightarrow> int \<Rightarrow> int \<Rightarrow> int option song_stats list" where
  "get_top_songs_by_year env y n =
     (let year_data = filter (\<lambda>e. ce_year e = y) (df env) in
      if year_data = [] then []
      else pd_head n (sort_key st_rank (groupby_agg ce_last_week first_valid year_data)))"

section \<open>The song match engine\<close>

datatype match_type = Exact | Contains | Fuzzy

record match =
  song :: string
  artist :: string
  weeks_on_chart :: int
  best_rank :: int
  peak_rank :: int
  year :: int
  match_score :: int
  match_type :: match_type

definition mk_match :: "int song_stats \<Rightarrow> int \<Rightarrow> match_type \<Rightarrow> match" where
  "mk_match g score ty =
     \<lparr>song = st_song g, artist = st_artist g, weeks_on_chart = st_weeks_on_board g,
      best_rank = st_rank g, peak_rank = st_peak_rank g, year = st_first g,
      match_score = score, match_type = ty\<rparr>"

text \<open>
  The loop \<^verbatim>\<open>for x in xs: if len(matches) >= max_results: break; matches.append(x)\<close>.
\<close>

fun add_until :: "int \<Rightarrow> match list \<Rightarrow> match list \<Rightarrow> match list" where
  "add_until max_results matches [] = matches"
| "add_until max_results matches (x # xs) =
     (if int (length matches) \<ge> max_results then matches
      else add_until max_results (matches @ [x]) xs)"

text \<open>The optional artist filter; an exception is \<open>None\<close>.\<close>

definition filter_by_artist ::
  "env \<Rightarrow> string option \<Rightarrow> int song_stats list \<Rightarrow> int song_stats list option"
where
  "filter_by_artist env artist_name unique_songs =
     (case artist_name of
        None \<Rightarrow> Some unique_songs
      | Some a \<Rightarrow>
          if a = [] then Some unique_songs
          else (case re_compile env (strip a) of
                  None \<Rightarrow> None
                | Some found \<Rightarrow> Some (filter (\<lambda>g. found (st_artist g)) unique_songs)))"

definition exact_tier :: "string \<Rightarrow> int song_stats list \<Rightarrow> match list" where
  "exact_tier q unique_songs =
     map (\<lambda>g. mk_match g 100 Exact) (filter (\<lambda>g. lower (st_song g) = lower q) unique_songs)"

definition contains_tier ::
  "env \<Rightarrow> string \<Rightarrow> int \<Rightarrow> int song_stats list \<Rightarrow> match list \<Rightarrow> match list option"
where
  "contains_tier env q max_results unique_songs matches =
     (if int (length matches) < max_results then
        (case re_compile env q of
           None \<Rightarrow> None
         | Some found \<Rightarrow>
             Some (add_until max_results matches
               (map (\<lambda>g. mk_match g 85 Contains)
                  (filter (\<lambda>g. found (st_song g) \<and> lower (st_song g) \<noteq> lower q) unique_songs))))
      else Some matches)"

text \<open>
  The scoring loop of the third tier. \<^verbatim>\<open>unique_songs[unique_songs['song'] == t].iloc[0]\<close> is
  the first row with that title; \<open>None\<close> stands for its \<^verbatim>\<open>IndexError\<close>.
\<close>

fun fuzzy_candidates ::
  "env \<Rightarrow> string \<Rightarrow> int \<Rightarrow> int song_stats list \<Rightarrow> string set \<Rightarrow> string list \<Rightarrow> match list option"
where
  "fuzzy_candidates env q fuzzy_threshold unique_songs already_matched [] = Some []"
| "fuzzy_candidates env q fuzzy_threshold unique_songs already_matched (song_title # rest) =
     (if lower song_title \<notin> already_matched then
        (let score = partial_ratio env (lower q) (lower song_title) in
         if score \<ge> fuzzy_threshold then
           (case find (\<lambda>g. st_song g = song_title) unique_songs of
              None \<Rightarrow> None
            | Some song_data \<Rightarrow>
                (case fuzzy_candidates env q fuzzy_threshold unique_songs already_matched rest of
                   None \<Rightarrow> None
                 | Some ms \<Rightarrow> Some (mk_match song_data score Fuzzy # ms)))
         else fuzzy_candidates env q fuzzy_threshold unique_songs already_matched rest)
      else fuzzy_candidates env q fuzzy_threshold unique_songs already_matched rest)"

text \<open>\<^verbatim>\<open>sort(key=match_score, reverse=True)\<close> is stable, as \<open>sort_key\<close> is.\<close>

definition fuzzy_tier ::
  "env \<Rightarrow> string \<Rightarrow> int \<Rightarrow> int \<Rightarrow> int song_stats list \<Rightarrow> match list \<Rightarrow> match list option"
where
  "fuzzy_tier env q max_results fuzzy_threshold unique_songs matches =
     (if int (length matches) < max_results then
        (let all_song_titles = map st_song unique_songs;
             already_matched = set (map (\<lambda>m. lower (song m)) matches) in
         case fuzzy_candidates env q fuzzy_threshold unique_songs already_matched all_song_titles of
           None \<Rightarrow> None
         | Some fuzzy_matches \<Rightarrow>
             Some (add_until max_results matches (sort_key (\<lambda>m. - match_score m) fuzzy_matches)))
      else Some matches)"

definition search_songs ::
  "env \<Rightarrow> string \<Rightarrow> string option \<Rightarrow> int \<Rightarrow> int \<Rightarrow> match list option"
where
  "search_songs env q artist_name max_results fuzzy_threshold =
     (case filter_by_artist env artist_name (groupby_agg ce_year keep_first (df env)) of
        None \<Rightarrow> None
      | Some unique_songs \<Rightarrow>
          (case contains_tier env q max_results unique_songs (exact_tier q unique_songs) of
             None \<Rightarrow> None
           | Some matches2 \<Rightarrow>
               (case fuzzy_tier env q max_results fuzzy_threshold unique_songs matches2 of
                  None \<Rightarrow> None
                | Some matches3 \<Rightarrow> Some (py_slice_to max_results matches3))))"

text \<open>
  The public function: the guard on the query, then the search inside
  \<^verbatim>\<open>try: ... except Exception: return []\<close>.
\<close>

definition get_song_matches_with_duration ::
  "env \<Rightarrow> pyval \<Rightarrow> string option \<Rightarrow> int \<Rightarrow> int \<Rightarrow> match list"
where
  "get_song_matches_with_duration env query_song artist_name max_results fuzzy_threshold =
     (if \<not> truthy query_song \<or> \<not> isinstance_str query_song then []
      else (case query_song of
              PyStr s \<Rightarrow>
                (let q = strip s in
                 if q = [] then []
                 else (case search_songs env q artist_name max_results fuzzy_threshold of
                         None \<Rightarrow> []
                       | Some matches \<Rightarrow> matches))
            | _ \<Rightarrow> []))"

definition tier_rank :: "match_type \<Rightarrow> nat" where
  "tier_rank t = (case t of Exact \<Rightarrow> 0 | Contains \<Rightarrow> 1 | Fuzzy \<Rightarrow> 2)"

section \<open>An example store\<close>

text \<open>
  Five chart rows. \<open>literal_compile\<close> is what \<^verbatim>\<open>re.compile(pat, re.IGNORECASE).search\<close> does
  for a pattern without metacharacters; \<open>ratio_table\<close> holds the values of
  \<^verbatim>\<open>fuzz.partial_ratio\<close> on the titles of the example (\<^verbatim>\<open>partial_ratio('hello', 'jello')\<close> is 80).
\<close>

definition row :: "string \<Rightarrow> int \<Rightarrow> string \<Rightarrow> string \<Rightarrow> int option \<Rightarrow> int \<Rightarrow> int \<Rightarrow> int \<Rightarrow> chart_entry" where
  "row d r s a lw p w y =
     \<lparr>ce_date = d, ce_rank = r, ce_song = s, ce_artist = a, ce_last_week = lw,
      ce_peak_rank = p, ce_weeks_on_board = w, ce_year = y\<rparr>"

definition example_df :: "chart_entry list" where
  "example_df =
     [row ''1984-03-10'' 5 ''Hello'' ''Lionel Richie'' None 5 3 1984,
      row ''1984-03-17'' 1 ''Hello'' ''Lionel Richie'' (Some 5) 1 4 1984,
      row ''2015-11-14'' 1 ''Hello'' ''Adele'' None 1 1 2015,
      row ''1981-04-04'' 40 ''Hello Again'' ''Neil Diamond'' (Some 44) 6 12 1981,
      row ''1984-06-02'' 77 ''Jello'' ''The Wobblers'' None 77 1 1984]"

definition literal_compile :: "string \<Rightarrow> (string \<Rightarrow> bool) option" where
  "literal_compile pat = Some (\<lambda>s. \<exists>i \<in> set [0..<Suc (length s)]. prefix (lower pat) (drop i (lower s)))"

definition ratio_table :: "string \<Rightarrow> string \<Rightarrow> int" where
  "ratio_table a b = (if a = b then 100 else if (a, b) = (''hello'', ''jello'') then 80 else 0)"

definition no_flan :: "string \<Rightarrow> string" where
  "no_flan q = ''intent: unknown; error: no_valid_intent''"

definition example_env :: env where
  "example_env =
     \<lparr>df = example_df, re_compile = literal_compile, partial_ratio = ratio_table,
      parse_query_with_flan = no_flan\<rparr>"

section \<open>Vocabulary of the statements on the match engine\<close>

definition match_key :: "match \<Rightarrow> string \<times> string" where
  "match_key m = (song m, artist m)"

text \<open>
  The shape of a result before truncation: the entries of the exact tier, of the contains
  tier and of the fuzzy tier.
\<close>

definition tier_shape :: "string \<Rightarrow> match list \<Rightarrow> match list \<Rightarrow> match list \<Rightarrow> bool" where
  "tier_shape q es cs fs \<longleftrightarrow>
     (\<forall>m \<in> set es. match_type m = Exact \<and> match_score m = 100 \<and> lower (song m) = lower q) \<and>
     (\<forall>m \<in> set cs. match_type m = Contains \<and> match_score m = 85 \<and> lower (song m) \<noteq> lower q) \<and>
     (\<forall>m \<in> set fs. match_type m = Fuzzy \<and> lower (song m) \<notin> (\<lambda>m. lower (song m)) ` set (es @ cs)) \<and>
     distinct (map match_key (es @ cs))"

section \<open>Rendering numbers and text\<close>

text \<open>\<^verbatim>\<open>str(i)\<close> and \<^verbatim>\<open>f"{i}"\<close> for an integer: its decimal digits, with a sign when negative.\<close>

fun str_nat :: "nat \<Rightarrow> string" where
  "str_nat n =
     (if n < 10 then [''0123456789'' ! n]
      else str_nat (n div 10) @ [''0123456789'' ! (n mod 10)])"

declare str_nat.simps [simp del]

definition str_int :: "int \<Rightarrow> string" where
  "str_int i = (if i < 0 then CHR ''-'' # str_nat (nat (- i)) else str_nat (nat i))"

text \<open>\<^verbatim>\<open>sep.join(xs)\<close> and \<^verbatim>\<open>s.split(sep)\<close> for a one-character separator.\<close>

fun py_join :: "string \<Rightarrow> string list \<Rightarrow> string" where
  "py_join sep [] = []"
| "py_join sep [x] = x"
| "py_join sep (x # y # ys) = x @ sep @ py_join sep (y # ys)"

fun split_from :: "char \<Rightarrow> string \<Rightarrow> string \<Rightarrow> string list" where
  "split_from sep cur [] = [cur]"
| "split_from sep cur (c # cs) =
     (if c = sep then cur # split_from sep [] cs else split_from sep (cur @ [c]) cs)"

definition py_split :: "char \<Rightarrow> string \<Rightarrow> string list" where
  "py_split sep s = split_from sep [] s"

definition split_lines :: "string \<Rightarrow> string list" where
  "split_lines s = py_split (CHR 0x0A) s"

text \<open>The pictographs of the messages, as their UTF-8 bytes; \<open>nl\<close> is the line feed and \<open>sq\<close> the single quote.\<close>

definition nl :: string where "nl = [CHR 0x0A]"
definition sq :: string where "sq = [CHR 0x27]"
definition bullet :: string where "bullet = [CHR 0xE2, CHR 0x80, CHR 0xA2]"
definition en_dash :: string where "en_dash = [CHR 0xE2, CHR 0x80, CHR 0x93]"
definition emoji_magnifier :: string where "emoji_magnifier = [CHR 0xF0, CHR 0x9F, CHR 0x94, CHR 0x8D]"
definition emoji_note :: string where "emoji_note = [CHR 0xF0, CHR 0x9F, CHR 0x8E, CHR 0xB5]"
definition emoji_bar_chart :: string where "emoji_bar_chart = [CHR 0xF0, CHR 0x9F, CHR 0x93, CHR 0x8A]"
definition emoji_fire :: string where "emoji_fire = [CHR 0xF0, CHR 0x9F, CHR 0x94, CHR 0xA5]"
definition emoji_star :: string where "emoji_star = [CHR 0xE2, CHR 0xAD, CHR 0x90]"
definition emoji_thumbs_up :: string where "emoji_thumbs_up = [CHR 0xF0, CHR 0x9F, CHR 0x91, CHR 0x8D]"
definition emoji_chart_up :: string where "emoji_chart_up = [CHR 0xF0, CHR 0x9F, CHR 0x93, CHR 0x88]"
definition emoji_check :: string where "emoji_check = [CHR 0xE2, CHR 0x9C, CHR 0x85]"
definition emoji_bulb :: string where "emoji_bulb = [CHR 0xF0, CHR 0x9F, CHR 0x92, CHR 0xA1]"
definition emoji_cross :: string where "emoji_cross = [CHR 0xE2, CHR 0x9D, CHR 0x8C]"
definition emoji_calendar :: string where "emoji_calendar = [CHR 0xF0, CHR 0x9F, CHR 0x93, CHR 0x85]"
definition emoji_mailbox :: string where "emoji_mailbox = [CHR 0xF0, CHR 0x9F, CHR 0x93, CHR 0xAD]"
definition emoji_warning :: string where "emoji_warning = [CHR 0xE2, CHR 0x9A, CHR 0xA0, CHR 0xEF, CHR 0xB8, CHR 0x8F]"
definition emoji_robot :: string where "emoji_robot = [CHR 0xF0, CHR 0x9F, CHR 0xA4, CHR 0x96]"
definition emoji_masks :: string where "emoji_masks = [CHR 0xF0, CHR 0x9F, CHR 0x8E, CHR 0xAD]"
definition emoji_stopwatch :: string where "emoji_stopwatch = [CHR 0xE2, CHR 0x8F, CHR 0xB1]"
definition emoji_microphone :: string where "emoji_microphone = [CHR 0xF0, CHR 0x9F, CHR 0x8E, CHR 0xA4]"
definition emoji_target :: string where "emoji_target = [CHR 0xF0, CHR 0x9F, CHR 0x8E, CHR 0xAF]"

section \<open>The answer formatter for duration lookups\<close>

text \<open>The message for an empty result.\<close>

definition no_match_message :: "string \<Rightarrow> string" where
  "no_match_message original_query =
     emoji_magnifier @ '' Sorry, I couldn't find any songs matching '' @ sq @ original_query @ sq @ ''. Try:'' @ nl @
     bullet @ '' Check spelling'' @ nl @
     bullet @ '' Use partial song names (e.g., 'Shape' instead of 'Shape of You')'' @ nl @
     bullet @ '' Try just the artist name''"

text \<open>The single-match branch: \<open>header\<close> then \<open>duration_info\<close>; \<open>peak_line\<close> is the line it
  adds under \<^verbatim>\<open>if peak_rank != best_rank\<close>.\<close>

definition single_header :: "match \<Rightarrow> string" where
  "single_header m =
     emoji_note @ '' **'' @ song m @ ''** by *'' @ artist m @ ''* ('' @ str_int (year m) @ '')'' @ nl @ nl"

definition peak_line :: "match \<Rightarrow> string" where
  "peak_line m = bullet @ '' **Peak rank:** #'' @ str_int (peak_rank m)"

definition performance_comment :: "int \<Rightarrow> string" where
  "performance_comment weeks =
     (if weeks \<ge> 50 then
        nl @ emoji_fire @ '' **Incredible!** This song had amazing staying power on the charts!''
      else if weeks \<ge> 30 then
        nl @ emoji_star @ '' **Great performance!** This was a major hit.''
      else if weeks \<ge> 15 then
        nl @ emoji_thumbs_up @ '' **Solid hit!** Good chart performance.''
      else
        nl @ emoji_chart_up @ '' **Chart entry** - Brief but notable appearance.'')"

definition duration_info :: "match \<Rightarrow> string" where
  "duration_info m =
     emoji_bar_chart @ '' **Chart Performance:**'' @ nl @
     bullet @ '' **'' @ str_int (weeks_on_chart m) @ '' weeks** on Billboard Hot 100'' @ nl @
     bullet @ '' **Best position:** #'' @ str_int (best_rank m) @ nl @
     (if peak_rank m \<noteq> best_rank m then peak_line m @ nl else []) @
     performance_comment (weeks_on_chart m)"

text \<open>The branch for several matches.\<close>

definition match_indicator :: "match \<Rightarrow> string" where
  "match_indicator m =
     (case match_type m of
        Exact \<Rightarrow> '' '' @ emoji_check
      | Fuzzy \<Rightarrow> '' ('' @ str_int (match_score m) @ ''% match)''
      | Contains \<Rightarrow> [])"

definition song_info :: "nat \<Rightarrow> match \<Rightarrow> string" where
  "song_info i m =
     ''**'' @ str_nat i @ ''.** '' @ song m @ '' by *'' @ artist m @ ''* ('' @ str_int (year m) @ '')'' @
     match_indicator m @ nl @
     ''   '' @ emoji_bar_chart @ '' '' @ str_int (weeks_on_chart m) @ '' weeks on chart, peaked at #'' @
     str_int (peak_rank m)"

definition format_song_duration_results :: "match list \<Rightarrow> string \<Rightarrow> string" where
  "format_song_duration_results matches original_query =
     (case matches of
        [] \<Rightarrow> no_match_message original_query
      | [m] \<Rightarrow> single_header m @ duration_info m
      | _ \<Rightarrow>
          emoji_magnifier @ '' Found **'' @ str_nat (length matches) @ ''** songs matching '' @ sq @
          original_query @ sq @ '':'' @ nl @ nl @
          py_join (nl @ nl) (map (\<lambda>(i, m). song_info (Suc i) m) (enumerate 0 matches)) @
          nl @ nl @ emoji_bulb @
          '' **Tip:** Try a more specific query like the full song title for better results.'')"

section \<open>Regular expressions\<close>

text \<open>
  The fragment of Python's \<^verbatim>\<open>re\<close> that the parser's patterns are written in: literal text,
  the classes \<^verbatim>\<open>\s\<close>, \<^verbatim>\<open>\d\<close> and \<^verbatim>\<open>.\<close> under \<^verbatim>\<open>+\<close>, \<^verbatim>\<open>+?\<close> and \<^verbatim>\<open>{n}\<close>, the optional
  \<^verbatim>\<open>(?:r)?\<close>, the alternative \<^verbatim>\<open>(?:a|b)\<close>, concatenation, a capturing group and \<^verbatim>\<open>$\<close>.
\<close>

datatype cclass = Space | Digit | AnyChar

fun in_class :: "cclass \<Rightarrow> char \<Rightarrow> bool" where
  "in_class Space c = is_space c"
| "in_class Digit c = is_digit c"
| "in_class AnyChar c = (c \<noteq> CHR 0x0A)"

datatype regex =
    Lit string
  | Rep1 cclass
  | Lazy1 cclass
  | RepN nat cclass
  | Opt regex
  | Alt regex regex
  | Seq regex regex
  | Group regex
  | Eos

text \<open>
  \<open>rmatch r s\<close> lists the ways \<open>r\<close> matches a prefix of \<open>s\<close>, in the order in which a
  backtracking matcher tries them (a greedy repetition tries the longest run first, a lazy
  one the shortest; an alternative tries its left branch first). Each way is the list of
  captured groups and the text left over. The first element is the match Python reports.
\<close>

definition span :: "cclass \<Rightarrow> string \<Rightarrow> nat" where
  "span c s = length (takeWhile (in_class c) s)"

primrec rmatch :: "regex \<Rightarrow> string \<Rightarrow> (string list \<times> string) list" where
  "rmatch (Lit l) s = (if prefix l s then [([], drop (length l) s)] else [])"
| "rmatch (Rep1 c) s = map (\<lambda>k. ([], drop k s)) (rev [1..<Suc (span c s)])"
| "rmatch (Lazy1 c) s = map (\<lambda>k. ([], drop k s)) [1..<Suc (span c s)]"
| "rmatch (RepN n c) s = (if n \<le> span c s then [([], drop n s)] else [])"
| "rmatch (Opt r) s = rmatch r s @ [([], s)]"
| "rmatch (Alt a b) s = rmatch a s @ rmatch b s"
| "rmatch (Seq a b) s =
     concat (map (\<lambda>(g1, s1). map (\<lambda>(g2, s2). (g1 @ g2, s2)) (rmatch b s1)) (rmatch a s))"
| "rmatch (Group r) s =
     map (\<lambda>(g, s'). (take (length s - length s') s # g, s')) (rmatch r s)"
| "rmatch Eos s = (if s = [] \<or> s = [CHR 0x0A] then [([], s)] else [])"

text \<open>\<^verbatim>\<open>re.search\<close>: the first match at the leftmost position that has one; the result is
  the list of its groups, \<^verbatim>\<open>[match.group(1), match.group(2), ...]\<close>.\<close>

fun re_search :: "regex \<Rightarrow> string \<Rightarrow> string list option" where
  "re_search r [] = (case rmatch r [] of [] \<Rightarrow> None | (groups, rest) # _ \<Rightarrow> Some groups)"
| "re_search r (c # cs) =
     (case rmatch r (c # cs) of
        [] \<Rightarrow> re_search r cs
      | (groups, rest) # _ \<Rightarrow> Some groups)"

fun seqs :: "regex list \<Rightarrow> regex" where
  "seqs [] = Lit []"
| "seqs [r] = r"
| "seqs (r # rs) = Seq r (seqs rs)"

text \<open>What a word denotes, without the order of the attempts: used to state what a match
  and its groups can be.\<close>

fun denotes :: "regex \<Rightarrow> string \<Rightarrow> string list \<Rightarrow> bool" where
  "denotes (Lit l) w gs \<longleftrightarrow> w = l \<and> gs = []"
| "denotes (Rep1 c) w gs \<longleftrightarrow> w \<noteq> [] \<and> list_all (in_class c) w \<and> gs = []"
| "denotes (Lazy1 c) w gs \<longleftrightarrow> w \<noteq> [] \<and> list_all (in_class c) w \<and> gs = []"
| "denotes (RepN n c) w gs \<longleftrightarrow> length w = n \<and> list_all (in_class c) w \<and> gs = []"
| "denotes (Opt r) w gs \<longleftrightarrow> denotes r w gs \<or> (w = [] \<and> gs = [])"
| "denotes (Alt a b) w gs \<longleftrightarrow> denotes a w gs \<or> denotes b w gs"
| "denotes (Seq a b) w gs \<longleftrightarrow>
     (\<exists>w1 w2 g1 g2. w = w1 @ w2 \<and> gs = g1 @ g2 \<and> denotes a w1 g1 \<and> denotes b w2 g2)"
| "denotes (Group r) w gs \<longleftrightarrow> (\<exists>g. gs = w # g \<and> denotes r w g)"
| "denotes Eos w gs \<longleftrightarrow> w = [] \<and> gs = []"

section \<open>The intent parser\<close>

text \<open>
  The two exceptions the parser's statements can raise: \<^verbatim>\<open>ValueError\<close> from \<^verbatim>\<open>int\<close>, with its
  message, and \<^verbatim>\<open>IndexError\<close> from \<^verbatim>\<open>match.group\<close>.
\<close>

datatype py_error = ValueError string | IndexError

text \<open>
  \<^verbatim>\<open>int(s)\<close> as the parser and the orchestrator use it, on a string that a \<^verbatim>\<open>\d\<close> group or
  \<^verbatim>\<open>str.isdigit\<close> has let through. The interpreter reads the leading decimal digits; when
  there are more of them than \<^verbatim>\<open>sys.get_int_max_str_digits()\<close>, 4300 unless the process
  changes it (nothing in the program does), it raises \<^verbatim>\<open>ValueError\<close>; it raises
  \<^verbatim>\<open>ValueError\<close> too when the string is empty or has a character that is not a decimal
  digit. (Python also accepts signs, surrounding blanks and underscores; neither test lets
  them through. The second message quotes the first 200 characters of \<^verbatim>\<open>repr(s)\<close>, which
  for such a string is the string between single quotes.)
\<close>

definition digit_value :: "char \<Rightarrow> nat" where
  "digit_value c = of_char c - 48"

definition int_max_str_digits :: nat where
  "int_max_str_digits = 4300"

definition py_int :: "string \<Rightarrow> py_error + int" where
  "py_int s =
     (let k = length (takeWhile is_digit s) in
      if int_max_str_digits < k then
        Inl (ValueError
          (''Exceeds the limit ('' @ str_nat int_max_str_digits @
           '' digits) for integer string conversion: value has '' @ str_nat k @
           '' digits; use sys.set_int_max_str_digits() to increase the limit''))
      else if s = [] \<or> k < length s then
        Inl (ValueError (''invalid literal for int() with base 10: '' @ take 200 (sq @ s @ sq)))
      else Inr (int (foldl (\<lambda>a c. 10 * a + digit_value c) 0 s)))"

text \<open>The dictionary the parser returns; \<open>empty_result\<close> is \<^verbatim>\<open>{}\<close>.\<close>

record parsed_query =
  q_intent :: "string option"
  q_n :: "int option"
  q_year :: "int option"
  q_decade_start :: "int option"
  q_song :: "string option"
  q_artist :: "string option"

definition empty_result :: parsed_query where
  "empty_result =
     \<lparr>q_intent = None, q_n = None, q_year = None, q_decade_start = None,
      q_song = None, q_artist = None\<rparr>"

text \<open>Pieces shared by the patterns.\<close>

definition re_ws :: regex where
  "re_ws = Rep1 Space"

definition re_songs :: regex where
  "re_songs = Seq (Lit ''song'') (Opt (Lit ''s''))"

definition re_songs_or_hits :: regex where
  "re_songs_or_hits = Alt re_songs (Seq (Lit ''hit'') (Opt (Lit ''s'')))"

definition re_of_from_in :: regex where
  "re_of_from_in = Alt (Lit ''of'') (Alt (Lit ''from'') (Lit ''in''))"

definition re_of_from :: regex where
  "re_of_from = Alt (Lit ''of'') (Lit ''from'')"

definition re_top_or_best :: regex where
  "re_top_or_best = Alt (Lit ''top'') (Lit ''best'')"

definition re_was_did :: regex where
  "re_was_did = Alt (Lit ''was'') (Lit ''did'')"

definition re_name :: regex where
  "re_name = Group (Lazy1 AnyChar)"

definition re_qmark_or_end :: regex where
  "re_qmark_or_end = Alt (Lit ''?'') Eos"

definition top_year_patterns :: "regex list" where
  "top_year_patterns =
     [seqs [Lit ''top'', re_ws, Group (Rep1 Digit), re_ws, re_songs, re_ws, re_of_from_in, re_ws, Group (RepN 4 Digit)],
      seqs [Lit ''best'', re_ws, Group (Rep1 Digit), re_ws, re_songs_or_hits, re_ws, re_of_from_in, re_ws,
            Group (RepN 4 Digit)],
      seqs [Group (Rep1 Digit), re_ws, re_top_or_best, re_ws, re_songs, re_ws, re_of_from_in, re_ws,
            Group (RepN 4 Digit)],
      seqs [Lit ''show'', re_ws, Lit ''me'', re_ws, Opt (Seq (Lit ''top'') re_ws), Group (Rep1 Digit), re_ws,
            re_songs, re_ws, re_of_from_in, re_ws, Group (RepN 4 Digit)]]"

definition top_year_default_patterns :: "regex list" where
  "top_year_default_patterns =
     [seqs [Lit ''top'', re_ws, re_songs, re_ws, re_of_from_in, re_ws, Group (RepN 4 Digit)],
      seqs [Lit ''best'', re_ws, re_songs_or_hits, re_ws, re_of_from_in, re_ws, Group (RepN 4 Digit)],
      seqs [Lit ''popular'', re_ws, re_songs, re_ws, re_of_from_in, re_ws, Group (RepN 4 Digit)]]"

definition decade_patterns :: "regex list" where
  "decade_patterns =
     [seqs [re_top_or_best, re_ws, re_songs_or_hits, re_ws, re_of_from, re_ws, Lit ''the'', re_ws,
            Group (RepN 2 Digit), Lit ''s''],
      seqs [re_top_or_best, re_ws, re_songs_or_hits, re_ws, re_of_from, re_ws, Group (RepN 4 Digit), Lit ''s''],
      seqs [Lit ''best'', re_ws, Lit ''of'', re_ws, Opt (Seq (Lit ''the'') re_ws), Group (RepN 2 Digit),
            Lit ''s''],
      seqs [Lit ''best'', re_ws, Lit ''of'', re_ws, Group (RepN 4 Digit), Lit ''s'']]"

definition duration_with_artist_patterns :: "regex list" where
  "duration_with_artist_patterns =
     [seqs [Lit ''how long '', re_was_did, Lit '' '', re_name, Lit '' by '', re_name, Lit '' '',
            Alt (Lit ''stay'') (Alt (Lit ''on'') (Alt (Lit ''chart'') (Lit ''last'')))],
      seqs [Lit ''how many weeks '', re_was_did, Lit '' '', re_name, Lit '' by '', re_name, Lit '' '',
            Alt (Lit ''on'') (Alt (Lit ''stay'') (Lit ''chart''))],
      seqs [re_name, Lit '' by '', re_name, Lit '' '',
            Alt (Lit ''duration'') (Alt (Lit ''weeks'') (Lit ''chart time'')), re_qmark_or_end],
      seqs [Lit ''duration '', Alt (Lit ''of'') (Lit ''for''), Lit '' '', re_name, Lit '' by '', re_name,
            Alt (Lit ''?'') (Alt Eos (Lit ''on''))],
      seqs [re_name, Lit '' by '', re_name, Lit '' on '', Opt (Lit ''the ''), Lit ''chart'', re_qmark_or_end]]"

definition duration_patterns :: "regex list" where
  "duration_patterns =
     [seqs [Lit ''how long '', re_was_did, Lit '' '', re_name, Lit '' '',
            Alt (Lit ''stay'') (Alt (Lit ''on'') (Alt (Lit ''chart'') (Lit ''last'')))],
      seqs [Lit ''how many weeks '', re_was_did, Lit '' '', re_name, Lit '' '',
            Alt (Lit ''on'') (Alt (Lit ''stay'') (Lit ''chart''))],
      seqs [Lit ''duration '', Alt (Lit ''of'') (Lit ''for''), Lit '' '', re_name,
            Alt (Lit ''?'') (Alt Eos (Lit ''on''))],
      seqs [Lit ''weeks '', Alt (Lit ''for'') (Lit ''of''), Lit '' '', re_name,
            Alt (Lit ''?'') (Alt Eos (Lit ''on''))],
      seqs [re_name, Lit '' '', Alt (Lit ''duration'') (Alt (Lit ''weeks'') (Lit ''chart time'')),
            re_qmark_or_end],
      seqs [Lit ''chart time '', Alt (Lit ''for'') (Lit ''of''), Lit '' '', re_name, re_qmark_or_end],
      seqs [Lit ''how long '', re_name, re_qmark_or_end],
      seqs [re_name, Lit '' on '', Opt (Lit ''the ''), Lit ''chart'', re_qmark_or_end],
      seqs [re_name, Lit '' billboard'', re_qmark_or_end]]"

text \<open>
  \<^verbatim>\<open>re.sub(rf'\b{word}\b', '', s, flags=re.IGNORECASE)\<close> for a word made of letters and
  digits. Such a word has a boundary before it and one after it exactly when it is a whole
  run of word characters, so the substitution deletes the runs that equal the word when
  case is ignored. \<open>run\<close> is the run of word characters read so far.
\<close>

definition keep_unless :: "string \<Rightarrow> string \<Rightarrow> string" where
  "keep_unless word run = (if lower run = lower word then [] else run)"

fun sub_word_from :: "string \<Rightarrow> string \<Rightarrow> string \<Rightarrow> string" where
  "sub_word_from word run [] = keep_unless word run"
| "sub_word_from word run (c # cs) =
     (if is_word c then sub_word_from word (run @ [c]) cs
      else keep_unless word run @ c # sub_word_from word [] cs)"

definition sub_whole_word :: "string \<Rightarrow> string \<Rightarrow> string" where
  "sub_whole_word word s = sub_word_from word [] s"

text \<open>\<^verbatim>\<open>re.sub(r'\s+', ' ', s)\<close>: every run of whitespace becomes one blank.\<close>

fun sub_spaces_from :: "bool \<Rightarrow> string \<Rightarrow> string" where
  "sub_spaces_from in_run [] = []"
| "sub_spaces_from in_run (c # cs) =
     (if is_space c then (if in_run then [] else [CHR 0x20]) @ sub_spaces_from True cs
      else c # sub_spaces_from False cs)"

definition sub_spaces :: "string \<Rightarrow> string" where
  "sub_spaces s = sub_spaces_from False s"

text \<open>The clean-up of a captured name: each word of the list is removed in turn, the
  result stripped each time, then whitespace is collapsed and the result stripped.\<close>

definition cleanup :: "string list \<Rightarrow> string \<Rightarrow> string" where
  "cleanup words s =
     strip (sub_spaces (foldl (\<lambda>s word. strip (sub_whole_word word s)) s words))"

definition cleanup_words_with_artist :: "string list" where
  "cleanup_words_with_artist =
     [''the'', ''on'', ''chart'', ''billboard'', ''hot'', ''100'', ''was'', ''did'', ''stay'', ''long'']"

definition cleanup_words :: "string list" where
  "cleanup_words = [''the'', ''on'', ''chart'', ''billboard'', ''hot'', ''100'', ''was'', ''did'']"

text \<open>
  The body run for a match of each of the five pattern groups. \<open>Some\<close> is a \<^verbatim>\<open>return\<close> (or
  an exception, \<open>Inl\<close>); \<open>None\<close> lets the loop go on to the next pattern.
\<close>

definition top_n_body :: "string list \<Rightarrow> (py_error + parsed_query) option" where
  "top_n_body groups =
     Some (case groups of
        [g1, g2] \<Rightarrow>
          (case py_int g1 of
             Inl e \<Rightarrow> Inl e
           | Inr n \<Rightarrow>
               (case py_int g2 of
                  Inl e \<Rightarrow> Inl e
                | Inr y \<Rightarrow>
                    Inr (empty_result\<lparr>q_intent := Some ''top_songs'', q_n := Some n,
                                       q_year := Some y\<rparr>)))
      | _ \<Rightarrow> Inl IndexError)"

definition top_default_body :: "string list \<Rightarrow> (py_error + parsed_query) option" where
  "top_default_body groups =
     Some (case groups of
        [g1] \<Rightarrow>
          (case py_int g1 of
             Inl e \<Rightarrow> Inl e
           | Inr y \<Rightarrow>
               Inr (empty_result\<lparr>q_intent := Some ''top_songs'', q_year := Some y,
                                  q_n := Some 10\<rparr>))
      | _ \<Rightarrow> Inl IndexError)"

definition decade_year :: "string \<Rightarrow> py_error + int" where
  "decade_year decade_str =
     (if length decade_str = 2 then
        (case py_int decade_str of
           Inl e \<Rightarrow> Inl e
         | Inr decade \<Rightarrow> Inr (if decade \<ge> 50 then 1900 + decade else 2000 + decade))
      else py_int decade_str)"

definition decade_body :: "string list \<Rightarrow> (py_error + parsed_query) option" where
  "decade_body groups =
     Some (case groups of
        [decade_str] \<Rightarrow>
          (case decade_year decade_str of
             Inl e \<Rightarrow> Inl e
           | Inr y \<Rightarrow>
               Inr (empty_result\<lparr>q_intent := Some ''top_songs_decade'',
                                  q_decade_start := Some y, q_n := Some 20\<rparr>))
      | _ \<Rightarrow> Inl IndexError)"

definition duration_with_artist_body :: "string list \<Rightarrow> (py_error + parsed_query) option" where
  "duration_with_artist_body groups =
     (case groups of
        [g1, g2] \<Rightarrow>
          (let song_name = cleanup cleanup_words_with_artist (strip g1);
               artist_name = cleanup cleanup_words_with_artist (strip g2) in
           if song_name \<noteq> [] \<and> artist_name \<noteq> [] then
             Some (Inr (empty_result\<lparr>q_intent := Some ''song_duration_with_artist'',
                                      q_song := Some song_name, q_artist := Some artist_name\<rparr>))
           else None)
      | _ \<Rightarrow> Some (Inl IndexError))"

definition duration_body :: "string list \<Rightarrow> (py_error + parsed_query) option" where
  "duration_body groups =
     (case groups of
        [g1] \<Rightarrow>
          (let song_name = cleanup cleanup_words (strip g1) in
           if song_name \<noteq> [] then
             Some (Inr (empty_result\<lparr>q_intent := Some ''song_duration'', q_song := Some song_name\<rparr>))
           else None)
      | _ \<Rightarrow> Some (Inl IndexError))"

text \<open>\<^verbatim>\<open>for pattern in patterns: match = re.search(pattern, query_lower); if match: ...\<close>\<close>

fun scan_patterns ::
  "(string list \<Rightarrow> (py_error + parsed_query) option) \<Rightarrow> regex list \<Rightarrow> string \<Rightarrow>
   (py_error + parsed_query) option"
where
  "scan_patterns body [] s = None"
| "scan_patterns body (p # ps) s =
     (case re_search p s of
        None \<Rightarrow> scan_patterns body ps s
      | Some groups \<Rightarrow>
          (case body groups of
             None \<Rightarrow> scan_patterns body ps s
           | Some r \<Rightarrow> Some r))"

definition enhanced_query_parser :: "string \<Rightarrow> py_error + parsed_query" where
  "enhanced_query_parser query =
     (let query_lower = strip (lower query) in
      case scan_patterns top_n_body top_year_patterns query_lower of
        Some r \<Rightarrow> r
      | None \<Rightarrow>
     (case scan_patterns top_default_body top_year_default_patterns query_lower of
        Some r \<Rightarrow> r
      | None \<Rightarrow>
     (case scan_patterns decade_body decade_patterns query_lower of
        Some r \<Rightarrow> r
      | None \<Rightarrow>
     (case scan_patterns duration_with_artist_body duration_with_artist_patterns query_lower of
        Some r \<Rightarrow> r
      | None \<Rightarrow>
     (case scan_patterns duration_body duration_patterns query_lower of
        Some r \<Rightarrow> r
      | None \<Rightarrow> Inr empty_result)))))"





text \<open>
  \<open>decimal_digits\<close> are the strings a \<^verbatim>\<open>\d\<close> group captures, and \<open>longest_digit_run\<close> is the
  length of the longest run of consecutive decimal digits in a string.
\<close>

definition decimal_digits :: "string \<Rightarrow> bool" where
  "decimal_digits s \<longleftrightarrow> s \<noteq> [] \<and> list_all is_digit s"



text \<open>
  Vocabulary for the statement on the clean-up: the maximal runs of word characters of a
  string, and the strings in which every whitespace character is a single blank between
  two other characters (\<open>in_run\<close> says that the character before was whitespace).
\<close>

fun word_runs_from :: "string \<Rightarrow> string \<Rightarrow> string list" where
  "word_runs_from run [] = (if run = [] then [] else [run])"
| "word_runs_from run (c # cs) =
     (if is_word c then word_runs_from (run @ [c]) cs
      else (if run = [] then [] else [run]) @ word_runs_from [] cs)"

definition word_runs :: "string \<Rightarrow> string list" where
  "word_runs s = word_runs_from [] s"

fun collapsed_from :: "bool \<Rightarrow> string \<Rightarrow> bool" where
  "collapsed_from in_run [] = True"
| "collapsed_from in_run (c # cs) =
     (if is_space c then \<not> in_run \<and> c = CHR 0x20 \<and> collapsed_from True cs
      else collapsed_from False cs)"
section \<open>The dialogue orchestrator\<close>

text \<open>\<^verbatim>\<open>parse_flan_output_to_dict\<close>: the segments between semicolons, each split at its first
  colon; a later key overwrites an earlier one.\<close>

definition flan_item :: "(string \<times> string) list \<Rightarrow> string \<Rightarrow> (string \<times> string) list" where
  "flan_item parsed item0 =
     (let item = strip item0 in
      if CHR '':'' \<in> set item then
        (let key = takeWhile (\<lambda>c. c \<noteq> CHR '':'') item;
             v = drop 1 (dropWhile (\<lambda>c. c \<noteq> CHR '':'') item) in
         AList.update (lower (strip key)) (strip v) parsed)
      else parsed)"

definition parse_flan_output_to_dict :: "string \<Rightarrow> (string \<times> string) list" where
  "parse_flan_output_to_dict raw_text = foldl flan_item [] (py_split (CHR '';'') (strip raw_text))"

definition dict_get :: "(string \<times> string) list \<Rightarrow> string \<Rightarrow> string \<Rightarrow> string" where
  "dict_get d k dflt = (case map_of d k of None \<Rightarrow> dflt | Some v \<Rightarrow> v)"

text \<open>
  \<^verbatim>\<open>str.isdigit\<close> accepts more than the decimal digits that \<^verbatim>\<open>int\<close> reads: of the characters
  below U+0100 also the superscripts U+00B2, U+00B3 and U+00B9, on which \<^verbatim>\<open>int\<close> raises
  \<^verbatim>\<open>ValueError\<close>.
\<close>

definition is_superscript_digit :: "char \<Rightarrow> bool" where
  "is_superscript_digit c \<longleftrightarrow> c \<in> set [CHR 0xB2, CHR 0xB3, CHR 0xB9]"

definition isdigit :: "string \<Rightarrow> bool" where
  "isdigit s \<longleftrightarrow> s \<noteq> [] \<and> list_all (\<lambda>c. is_digit c \<or> is_superscript_digit c) s"

definition strip_quotes :: "string \<Rightarrow> string" where
  "strip_quotes s =
     rev (dropWhile (\<lambda>c. c \<in> set [CHR 0x22, CHR 0x27])
       (rev (dropWhile (\<lambda>c. c \<in> set [CHR 0x22, CHR 0x27]) s)))"

text \<open>The values \<^verbatim>\<open>respond_to_query\<close> extracts before it routes.\<close>

record request =
  r_intent :: string
  r_year :: "int option"
  r_n :: int
  r_song :: string
  r_artist :: string
  r_decade_start :: "int option"

definition from_enhanced :: "parsed_query \<Rightarrow> request" where
  "from_enhanced e =
     \<lparr>r_intent = (case q_intent e of None \<Rightarrow> [] | Some i \<Rightarrow> i),
      r_year = q_year e,
      r_n = (case q_n e of None \<Rightarrow> 10 | Some n \<Rightarrow> n),
      r_song = (case q_song e of None \<Rightarrow> [] | Some s \<Rightarrow> s),
      r_artist = (case q_artist e of None \<Rightarrow> [] | Some a \<Rightarrow> a),
      r_decade_start = q_decade_start e\<rparr>"

definition from_flan :: "(string \<times> string) list \<Rightarrow> py_error + request" where
  "from_flan nlp_result =
     (let year_str = dict_get nlp_result ''year'' [] in
      case (if isdigit year_str then map_sum id Some (py_int year_str) else Inr None) of
        Inl e \<Rightarrow> Inl e
      | Inr y \<Rightarrow>
          (case (if isdigit (dict_get nlp_result ''n'' [])
                 then map_sum id (\<lambda>n. min n 50) (py_int (dict_get nlp_result ''n'' ''10''))
                 else Inr 10) of
             Inl e \<Rightarrow> Inl e
           | Inr n \<Rightarrow>
               Inr \<lparr>r_intent = lower (dict_get nlp_result ''intent'' []),
                    r_year = y,
                    r_n = n,
                    r_song = strip_quotes (dict_get nlp_result ''song'' []),
                    r_artist = strip_quotes (dict_get nlp_result ''artist'' []),
                    r_decade_start = None\<rparr>))"

definition extract_request :: "env \<Rightarrow> string \<Rightarrow> py_error + request" where
  "extract_request env query =
     (case enhanced_query_parser query of
        Inl e \<Rightarrow> Inl e
      | Inr enhanced_result \<Rightarrow>
          if enhanced_result \<noteq> empty_result then Inr (from_enhanced enhanced_result)
          else from_flan (parse_flan_output_to_dict (parse_query_with_flan env query)))"

definition get_decade_songs :: "env \<Rightarrow> int \<Rightarrow> int \<Rightarrow> int song_stats list" where
  "get_decade_songs env decade_start n =
     (let decade_end = decade_start + 9;
          decade_data = filter (\<lambda>e. ce_year e \<ge> decade_start \<and> ce_year e \<le> decade_end) (df env) in
      if decade_data = [] then []
      else pd_head n (sort_key st_rank (groupby_agg ce_year keep_first decade_data)))"

definition top_song_info :: "nat \<Rightarrow> 'a song_stats \<Rightarrow> string" where
  "top_song_info i s =
     ''**'' @ str_nat (i + 1) @ ''. '' @ st_song s @ ''** by *'' @ st_artist s @ ''*'' @
     nl @ ''   '' @
     py_join (nl @ ''   '')
       [bullet @ '' '' @ str_int (st_weeks_on_board s) @ '' weeks on chart'',
        bullet @ '' Peaked at #'' @ str_int (st_peak_rank s)]"

definition format_top_songs :: "int option song_stats list \<Rightarrow> int \<Rightarrow> int \<Rightarrow> string" where
  "format_top_songs songs y n =
     (if songs = [] then
        emoji_mailbox @ '' No songs found for '' @ str_int y @ ''. Try a year between 1958'' @
        en_dash @ ''2021.''
      else
        emoji_note @ '' **Top '' @ str_nat (length songs) @ '' Billboard Hot 100 songs of '' @
        str_int y @ '':**'' @ nl @ nl @
        py_join (nl @ nl) (map (\<lambda>(i, s). top_song_info i s) (enumerate 0 songs)))"

definition decade_song_info :: "nat \<Rightarrow> int song_stats \<Rightarrow> string" where
  "decade_song_info i s =
     ''**'' @ str_nat (i + 1) @ ''. '' @ st_song s @ ''** by *'' @ st_artist s @ ''* ('' @
     str_int (st_first s) @ '')'' @
     nl @ ''   '' @ py_join (nl @ ''   '') [bullet @ '' '' @ str_int (st_weeks_on_board s) @ '' weeks on chart'']"

definition format_decade_songs :: "int song_stats list \<Rightarrow> int \<Rightarrow> int \<Rightarrow> string" where
  "format_decade_songs songs decade_start n =
     (if songs = [] then
        emoji_mailbox @ '' No songs found for the '' @ str_int decade_start @ ''s.''
      else
        emoji_note @ '' **Top '' @ str_nat (length songs) @ '' Billboard Hot 100 songs of the '' @
        str_int decade_start @ ''s ('' @ str_int decade_start @ en_dash @ str_int (decade_start + 9) @
        ''):**'' @ nl @ nl @
        py_join (nl @ nl) (map (\<lambda>(i, s). decade_song_info i s) (enumerate 0 songs)))"

definition get_help_message :: string where
  "get_help_message =
     nl @ emoji_robot @ '' **I can help you with Billboard Hot 100 data (1958-2021)!**'' @ nl @
     nl @ ''**Try these formats:**'' @ nl @
     bullet @ '' '' @ emoji_bar_chart @
       '' **Top songs by year**: \"Top 10 songs of 1985\" or \"Best 5 hits from 2020\"'' @ nl @
     bullet @ '' '' @ emoji_masks @
       '' **Top songs by decade**: \"Best songs from the 80s\" or \"Top hits of 2000s\"'' @ nl @
     bullet @ '' '' @ emoji_stopwatch @
       '' **Song duration**: \"How long was Bohemian Rhapsody on the chart?\" or just \"Judy on chart\"'' @ nl @
     bullet @ '' '' @ emoji_microphone @
       '' **Artist-specific search**: \"How long did Back to Back by Drake stay on the chart?\"'' @ nl @
     bullet @ '' '' @ emoji_target @ '' **Any year**: Ask about any year from 1958 to 2021!'' @ nl @
     nl @ ''**Example queries:**'' @ nl @
     ''- \"Show me top 15 songs of 1999\"'' @ nl @
     ''- \"How many weeks was Blinding Lights on the Billboard chart?\"'' @ nl @
     ''- \"Best songs from the 90s\"'' @ nl @
     ''- \"Shape of You duration\"'' @ nl @
     ''- \"How long did Hotline Bling by Drake stay on chart?\"'' @ nl @
     ''- \"God's Plan by Drake weeks on chart\"'' @ nl"

text \<open>The messages for a missing or an out-of-range year; the range in them is fixed text.\<close>

definition need_year_message :: string where
  "need_year_message =
     emoji_magnifier @
     '' Please specify a valid year between 1958-2021 (e.g., 'Top 5 songs of 2012').''"

definition out_of_range_message :: "int \<Rightarrow> string" where
  "out_of_range_message y =
     emoji_calendar @ '' Sorry, I only have data from 1958-2021. Year '' @ str_int y @
     '' is outside this range.''"

text \<open>\<^verbatim>\<open>str(e)\<close> for the exception that \<^verbatim>\<open>respond_to_query\<close> catches.\<close>

definition error_text :: "py_error \<Rightarrow> string" where
  "error_text e = (case e of ValueError msg \<Rightarrow> msg | IndexError \<Rightarrow> ''no such group'')"

definition route :: "env \<Rightarrow> request \<Rightarrow> string" where
  "route env r =
     (if r_intent r = ''top_songs'' then
        (case r_year r of
           None \<Rightarrow> need_year_message
         | Some y \<Rightarrow>
             if y = 0 then need_year_message
             else if \<not> validate_year_range env y then out_of_range_message y
             else format_top_songs (get_top_songs_by_year env y (r_n r)) y (r_n r))
      else if r_intent r = ''top_songs_decade'' then
        (case r_decade_start r of
           None \<Rightarrow>
             emoji_magnifier @ '' Please specify a valid decade (e.g., 'Best songs from the 80s').''
         | Some d \<Rightarrow>
             if d = 0 then
               emoji_magnifier @ '' Please specify a valid decade (e.g., 'Best songs from the 80s').''
             else format_decade_songs (get_decade_songs env d (r_n r)) d (r_n r))
      else if r_intent r = ''song_duration_with_artist'' then
        (if r_song r = [] then
           emoji_magnifier @
           '' Please specify a song name (e.g., 'How long was Thriller by Michael Jackson on the chart?').''
         else
           format_song_duration_results
             (get_song_matches_with_duration env (PyStr (r_song r)) (Some (r_artist r)) 3 60)
             (r_song r @ '' by '' @ r_artist r))
      else if r_intent r = ''song_duration'' then
        (if r_song r = [] then
           emoji_magnifier @
           '' Please specify a song name (e.g., 'How long was Thriller on the chart?').''
         else
           format_song_duration_results
             (get_song_matches_with_duration env (PyStr (r_song r)) None 5 60)
             (r_song r))
      else get_help_message)"

definition respond_to_query :: "env \<Rightarrow> pyval \<Rightarrow> string" where
  "respond_to_query env query =
     (if \<not> truthy query \<or> \<not> isinstance_str query then
        emoji_cross @ '' Please enter a valid text query.''
      else (case query of
              PyStr q \<Rightarrow>
                (case extract_request env q of
                   Inl e \<Rightarrow>
                     emoji_warning @
                     '' Something went wrong. Please try a different query. (Error: '' @
                     error_text e @ '')''
                 | Inr r \<Rightarrow> route env r)
            | _ \<Rightarrow> emoji_cross @ '' Please enter a valid text query.''))"

section \<open>Properties of the guard on the query\<close>

text \<open>
  C10: a query that is not a string, an empty string, or a string that is empty once its
  surrounding whitespace is stripped, gives the empty list, whatever the store, the artist
  filter and the bounds are.
\<close>

theorem degenerate_query_gives_no_matches:
  "(\<not> isinstance_str v \<longrightarrow>
      get_song_matches_with_duration env v artist_name max_results fuzzy_threshold = []) \<and>
   (strip s = [] \<longrightarrow>
      get_song_matches_with_duration env (PyStr s) artist_name max_results fuzzy_threshold = [])"
  by (simp add: get_song_matches_with_duration_def Let_def)

theorem degenerate_query_witness:
  "\<not> isinstance_str (PyInt 7) \<and>
   get_song_matches_with_duration example_env (PyInt 7) None 5 60 = [] \<and>
   strip [CHR 0x20, CHR 0x09, CHR 0x20] = [] \<and>
   get_song_matches_with_duration example_env (PyStr [CHR 0x20, CHR 0x09, CHR 0x20]) None 5 60 = []"
  using degenerate_query_gives_no_matches [of "PyInt 7" example_env None 5 60 "[CHR 0x20, CHR 0x09, CHR 0x20]"]
  by (simp add: strip_def lstrip_def rstrip_def is_space_def)
section \<open>Properties of the aggregation\<close>


lemma distinct_map_mset_cong:
  "mset xs = mset ys \<Longrightarrow> distinct (map f xs) = distinct (map f ys)"
proof -
  assume "mset xs = mset ys"
  then have "mset (map f xs) = mset (map f ys)" by simp
  then show ?thesis by (rule mset_eq_imp_distinct_iff)
qed

lemma agg_insert_keys:
  "set (map st_key (agg_insert col f e gs)) = insert (ce_song e, ce_artist e) (set (map st_key gs))"
  by (induction gs) (auto simp: st_key_def)

lemma agg_insert_distinct:
  "distinct (map st_key gs) \<Longrightarrow> distinct (map st_key (agg_insert col f e gs))"
proof (induction gs)
  case Nil
  then show ?case by simp
next
  case (Cons g gs)
  have "st_key g \<notin> set (map st_key (agg_insert col f e gs))"
    if "st_key g \<noteq> (ce_song e, ce_artist e)"
    using that Cons.prems by (simp only: agg_insert_keys) simp
  with Cons show ?case by (auto simp: st_key_def)
qed

lemma foldl_agg_insert_distinct:
  "distinct (map st_key gs) \<Longrightarrow>
   distinct (map st_key (foldl (\<lambda>gs e. agg_insert col f e gs) gs rows))"
  by (induction rows arbitrary: gs) (simp_all add: agg_insert_distinct)

lemma groupby_agg_distinct: "distinct (map st_key (groupby_agg col f rows))"
proof -
  have "distinct (map st_key (foldl (\<lambda>gs e. agg_insert col f e gs) [] rows))"
    by (rule foldl_agg_insert_distinct) simp
  then show ?thesis
    unfolding groupby_agg_def by (simp add: distinct_map_mset_cong [of "sort_key st_key _"])
qed

lemma length_pd_head: "0 \<le> n \<Longrightarrow> int (length (pd_head n xs)) \<le> n"
  by (simp add: pd_head_def)

lemma sorted_pd_head: "sorted (map f xs) \<Longrightarrow> sorted (map f (pd_head n xs))"
  by (simp add: pd_head_def take_map [symmetric] sorted_wrt_take)

lemma distinct_pd_head: "distinct (map f xs) \<Longrightarrow> distinct (map f (pd_head n xs))"
  by (simp add: pd_head_def take_map [symmetric])

text \<open>
  C2: whatever the year and the store, \<^verbatim>\<open>get_top_songs_by_year\<close> returns at most \<open>n\<close> aggregates
  for a count \<open>n \<ge> 0\<close>, in non-decreasing order of their best \<^verbatim>\<open>rank\<close>, and no two of them
  have the same (song, artist) pair. (A negative \<open>n\<close> makes \<^verbatim>\<open>head(n)\<close> drop rows from the
  end; the order and the distinctness hold there too.)
\<close>

theorem top_songs_by_year_bounded_sorted_distinct:
  "(0 \<le> n \<longrightarrow> int (length (get_top_songs_by_year env y n)) \<le> n) \<and>
   sorted (map st_rank (get_top_songs_by_year env y n)) \<and>
   distinct (map st_key (get_top_songs_by_year env y n))"
proof -
  let ?gs = "groupby_agg ce_last_week first_valid (filter (\<lambda>e. ce_year e = y) (df env))"
  have s: "sorted (map st_rank (sort_key st_rank ?gs))" by simp
  have "distinct (map st_key ?gs)" by (rule groupby_agg_distinct)
  then have d: "distinct (map st_key (sort_key st_rank ?gs))"
    by (simp add: distinct_map_mset_cong [of "sort_key st_rank ?gs" ?gs])
  show ?thesis
    unfolding get_top_songs_by_year_def Let_def
    using s d by (simp add: length_pd_head sorted_pd_head distinct_pd_head)
qed

theorem top_songs_by_year_witness:
  "(0::int) \<le> 2 \<and>
   get_top_songs_by_year example_env 1984 2 =
     [\<lparr>st_song = ''Hello'', st_artist = ''Lionel Richie'', st_rank = 1,
       st_peak_rank = 1, st_weeks_on_board = 4, st_first = Some 5\<rparr>,
      \<lparr>st_song = ''Jello'', st_artist = ''The Wobblers'', st_rank = 77,
       st_peak_rank = 77, st_weeks_on_board = 1, st_first = None\<rparr>] \<and>
   int (length (get_top_songs_by_year example_env 1984 2)) \<le> 2 \<and>
   sorted (map st_rank (get_top_songs_by_year example_env 1984 2)) \<and>
   distinct (map st_key (get_top_songs_by_year example_env 1984 2))"
proof -
  have v: "get_top_songs_by_year example_env 1984 2 =
     [\<lparr>st_song = ''Hello'', st_artist = ''Lionel Richie'', st_rank = 1,
       st_peak_rank = 1, st_weeks_on_board = 4, st_first = Some 5\<rparr>,
      \<lparr>st_song = ''Jello'', st_artist = ''The Wobblers'', st_rank = 77,
       st_peak_rank = 77, st_weeks_on_board = 1, st_first = None\<rparr>]"
    by code_simp
  from top_songs_by_year_bounded_sorted_distinct [of 2 example_env 1984]
  have "int (length (get_top_songs_by_year example_env 1984 2)) \<le> 2"
    "sorted (map st_rank (get_top_songs_by_year example_env 1984 2))"
    "distinct (map st_key (get_top_songs_by_year example_env 1984 2))"
    by simp_all
  with v show ?thesis by simp
qed

section \<open>Properties of the song match engine\<close>


lemma add_until_take:
  "add_until mx ms xs = ms @ take (nat (mx - int (length ms))) xs"
proof (induction xs arbitrary: ms)
  case Nil
  then show ?case by simp
next
  case (Cons x xs)
  show ?case
  proof (cases "int (length ms) \<ge> mx")
    case True
    then show ?thesis by simp
  next
    case False
    then have "nat (mx - int (length ms)) = Suc (nat (mx - int (length (ms @ [x]))))"
      by simp
    with False Cons.IH [of "ms @ [x]"] show ?thesis by simp
  qed
qed

lemma py_slice_to_take: "\<exists>k. py_slice_to n xs = take k xs \<and> (0 \<le> n \<longrightarrow> k = nat n)"
  by (auto simp: py_slice_to_def)

lemma fuzzy_candidates_props:
  "fuzzy_candidates env q thr us already ts = Some fs \<Longrightarrow>
   \<forall>m \<in> set fs. match_type m = Fuzzy \<and> lower (song m) \<notin> already"
proof (induction ts arbitrary: fs)
  case Nil
  then show ?case by simp
next
  case (Cons t ts)
  then show ?case
    by (auto simp: Let_def mk_match_def find_Some_iff split: if_splits option.splits)
qed

lemma exact_contains_distinct:
  assumes "distinct (map st_key us)"
  shows "distinct (map match_key
     (map (\<lambda>g. mk_match g a Exact) (filter P us) @
      take k (map (\<lambda>g. mk_match g b Contains) (filter (\<lambda>g. R g \<and> \<not> P g) us))))"
proof -
  have k1: "map match_key (map (\<lambda>g. mk_match g a Exact) xs) = map st_key xs" for xs
    by (simp add: match_key_def mk_match_def st_key_def)
  have k2: "map match_key (map (\<lambda>g. mk_match g b Contains) xs) = map st_key xs" for xs
    by (simp add: match_key_def mk_match_def st_key_def)
  have d1: "distinct (map st_key (filter P us))"
    using assms by (rule distinct_map_filter)
  have d2: "distinct (map st_key (filter (\<lambda>g. R g \<and> \<not> P g) us))"
    using assms by (rule distinct_map_filter)
  have disj: "set (map st_key (filter P us)) \<inter> set (map st_key (filter (\<lambda>g. R g \<and> \<not> P g) us)) = {}"
    using assms by (auto simp: distinct_map inj_on_def)
  have "set (take k (map st_key (filter (\<lambda>g. R g \<and> \<not> P g) us)))
          \<subseteq> set (map st_key (filter (\<lambda>g. R g \<and> \<not> P g) us))"
    by (rule set_take_subset)
  with disj have disj': "set (map st_key (filter P us)) \<inter>
        set (take k (map st_key (filter (\<lambda>g. R g \<and> \<not> P g) us))) = {}"
    by blast
  have "distinct (take k (map st_key (filter (\<lambda>g. R g \<and> \<not> P g) us)))"
    using d2 by simp
  with d1 disj' show ?thesis
    by (simp only: map_append k1 take_map [symmetric] k2 distinct_append)
qed

lemma filter_by_artist_distinct:
  "filter_by_artist env a us0 = Some us \<Longrightarrow> distinct (map st_key us0) \<Longrightarrow> distinct (map st_key us)"
  by (auto simp: filter_by_artist_def distinct_map_filter split: option.splits if_splits)

lemma search_songs_shape:
  assumes "search_songs env q a mx thr = Some res"
  shows "\<exists>es cs fs k. res = take k (es @ cs @ fs) \<and> tier_shape q es cs fs \<and> (0 \<le> mx \<longrightarrow> k = nat mx)"
proof -
  from assms obtain us ms2 ms3 where
    us: "filter_by_artist env a (groupby_agg ce_year keep_first (df env)) = Some us" and
    c: "contains_tier env q mx us (exact_tier q us) = Some ms2" and
    f: "fuzzy_tier env q mx thr us ms2 = Some ms3" and
    res: "res = py_slice_to mx ms3"
    by (auto simp: search_songs_def split: option.splits)
  have dus: "distinct (map st_key us)"
    using us groupby_agg_distinct by (rule filter_by_artist_distinct)
  let ?es = "exact_tier q us"
  have es: "\<forall>m \<in> set ?es. match_type m = Exact \<and> match_score m = 100 \<and> lower (song m) = lower q"
    by (auto simp: exact_tier_def mk_match_def)
  from c obtain cs where ms2: "ms2 = ?es @ cs" and
    cs: "\<forall>m \<in> set cs. match_type m = Contains \<and> match_score m = 85 \<and> lower (song m) \<noteq> lower q" and
    dd: "distinct (map match_key (?es @ cs))"
  proof (cases "int (length ?es) < mx")
    case True
    with c obtain found where
      "ms2 = ?es @ take (nat (mx - int (length ?es)))
         (map (\<lambda>g. mk_match g 85 Contains)
            (filter (\<lambda>g. found (st_song g) \<and> lower (st_song g) \<noteq> lower q) us))"
      by (auto simp: contains_tier_def add_until_take split: option.splits)
    moreover have "\<forall>m \<in> set (take n (map (\<lambda>g. mk_match g 85 Contains)
            (filter (\<lambda>g. found (st_song g) \<and> lower (st_song g) \<noteq> lower q) us))).
          match_type m = Contains \<and> match_score m = 85 \<and> lower (song m) \<noteq> lower q" for n
      by (auto simp: mk_match_def dest!: in_set_takeD)
    moreover have "distinct (map match_key (?es @ take n (map (\<lambda>g. mk_match g 85 Contains)
            (filter (\<lambda>g. found (st_song g) \<and> lower (st_song g) \<noteq> lower q) us))))" for n
      unfolding exact_tier_def
      using exact_contains_distinct [OF dus, of 100 "\<lambda>g. lower (st_song g) = lower q" n 85 "\<lambda>g. found (st_song g)"]
      by simp
    ultimately show ?thesis using that by blast
  next
    case False
    with c have "ms2 = ?es @ []" by (simp add: contains_tier_def)
    moreover have "distinct (map match_key (?es @ []))"
      unfolding exact_tier_def
      using exact_contains_distinct [OF dus, of 100 "\<lambda>g. lower (st_song g) = lower q" 0 85 "\<lambda>g. True"]
      by simp
    ultimately show ?thesis using that [of "[]"] by simp
  qed
  from f obtain fs where ms3: "ms3 = ms2 @ fs" and
    fs: "\<forall>m \<in> set fs. match_type m = Fuzzy \<and> lower (song m) \<notin> (\<lambda>m. lower (song m)) ` set ms2"
  proof (cases "int (length ms2) < mx")
    case True
    with f obtain cands where
      cands: "fuzzy_candidates env q thr us (set (map (\<lambda>m. lower (song m)) ms2)) (map st_song us) = Some cands"
      and "ms3 = ms2 @ take (nat (mx - int (length ms2))) (sort_key (\<lambda>m. - match_score m) cands)"
      by (auto simp: fuzzy_tier_def Let_def add_until_take split: option.splits)
    moreover have "\<forall>m \<in> set (take n (sort_key (\<lambda>m. - match_score m) cands)).
        match_type m = Fuzzy \<and> lower (song m) \<notin> (\<lambda>m. lower (song m)) ` set ms2" for n
      using fuzzy_candidates_props [OF cands] by (auto dest!: in_set_takeD)
    ultimately show ?thesis using that by blast
  next
    case False
    with f have "ms3 = ms2 @ []" by (simp add: fuzzy_tier_def)
    then show ?thesis using that [of "[]"] by simp
  qed
  obtain k where k: "py_slice_to mx ms3 = take k ms3" "0 \<le> mx \<longrightarrow> k = nat mx"
    using py_slice_to_take by blast
  have "tier_shape q ?es cs fs"
    unfolding tier_shape_def using es cs fs dd ms2 by simp
  with res k ms3 ms2 show ?thesis by auto
qed


lemma matches_shape:
  "\<exists>q es cs fs k.
     get_song_matches_with_duration env v a mx thr = take k (es @ cs @ fs) \<and>
     tier_shape q es cs fs \<and> (0 \<le> mx \<longrightarrow> k = nat mx)"
proof (cases "\<exists>res. search_songs env (strip (case v of PyStr s \<Rightarrow> s | _ \<Rightarrow> [])) a mx thr = Some res \<and>
    get_song_matches_with_duration env v a mx thr = res")
  case True
  then show ?thesis using search_songs_shape by metis
next
  case False
  then have "get_song_matches_with_duration env v a mx thr = []"
    by (auto simp: get_song_matches_with_duration_def Let_def split: pyval.splits option.splits)
  then have "get_song_matches_with_duration env v a mx thr = take (nat mx) ([] @ [] @ []) \<and>
     tier_shape [] [] [] [] \<and> (0 \<le> mx \<longrightarrow> nat mx = nat mx)"
    by (simp add: tier_shape_def)
  then show ?thesis by blast
qed

lemma sorted_map_const: "\<forall>x \<in> set xs. f x = (c::nat) \<Longrightarrow> sorted (map f xs)"
  by (induction xs) auto

lemma sorted_tiers:
  assumes "tier_shape q es cs fs"
  shows "sorted (map (\<lambda>m. tier_rank (match_type m)) (es @ cs @ fs))"
proof -
  have e: "\<forall>m \<in> set es. tier_rank (match_type m) = 0"
    and c: "\<forall>m \<in> set cs. tier_rank (match_type m) = 1"
    and f: "\<forall>m \<in> set fs. tier_rank (match_type m) = 2"
    using assms by (auto simp: tier_shape_def tier_rank_def)
  have "sorted (map (\<lambda>m. tier_rank (match_type m)) es)"
    "sorted (map (\<lambda>m. tier_rank (match_type m)) cs)"
    "sorted (map (\<lambda>m. tier_rank (match_type m)) fs)"
    using e c f by (blast intro: sorted_map_const)+
  then show ?thesis
    using e c f by (auto simp: sorted_append)
qed

text \<open>
  C1: for every query, artist filter and bound \<open>max_results \<ge> 0\<close> the result has at most
  \<open>max_results\<close> entries; in the result the exact-tier entries come first, then the
  contains-tier entries, then the fuzzy-tier entries; an exact-tier entry has score 100 and
  a contains-tier entry has score 85.
\<close>

theorem matches_bounded_and_tier_ordered:
  "(0 \<le> max_results \<longrightarrow>
      int (length (get_song_matches_with_duration env q artist_name max_results thr)) \<le> max_results) \<and>
   sorted (map (\<lambda>m. tier_rank (match_type m))
      (get_song_matches_with_duration env q artist_name max_results thr)) \<and>
   (\<forall>m \<in> set (get_song_matches_with_duration env q artist_name max_results thr).
      (match_type m = Exact \<longrightarrow> match_score m = 100) \<and>
      (match_type m = Contains \<longrightarrow> match_score m = 85))"
proof -
  obtain q' es cs fs k where
    r: "get_song_matches_with_duration env q artist_name max_results thr = take k (es @ cs @ fs)" and
    sh: "tier_shape q' es cs fs" and k: "0 \<le> max_results \<longrightarrow> k = nat max_results"
    using matches_shape by blast
  have 1: "0 \<le> max_results \<longrightarrow> int (length (take k (es @ cs @ fs))) \<le> max_results"
    using k by auto
  have "sorted (map (\<lambda>m. tier_rank (match_type m)) (es @ cs @ fs))"
    using sh by (rule sorted_tiers)
  then have 2: "sorted (map (\<lambda>m. tier_rank (match_type m)) (take k (es @ cs @ fs)))"
    by (simp only: take_map [symmetric] sorted_wrt_take)
  have "\<forall>m \<in> set (es @ cs @ fs). (match_type m = Exact \<longrightarrow> match_score m = 100) \<and>
      (match_type m = Contains \<longrightarrow> match_score m = 85)"
    using sh by (auto simp: tier_shape_def)
  then have 3: "\<forall>m \<in> set (take k (es @ cs @ fs)). (match_type m = Exact \<longrightarrow> match_score m = 100) \<and>
      (match_type m = Contains \<longrightarrow> match_score m = 85)"
    by (meson in_set_takeD)
  from 1 2 3 show ?thesis unfolding r by blast
qed

theorem matches_tier_order_witness:
  "(0::int) \<le> 5 \<and>
   map (\<lambda>m. (song m, artist m, match_type m, match_score m))
     (get_song_matches_with_duration example_env (PyStr ''Hello'') None 5 60) =
     [(''Hello'', ''Adele'', Exact, 100), (''Hello'', ''Lionel Richie'', Exact, 100),
      (''Hello Again'', ''Neil Diamond'', Contains, 85), (''Jello'', ''The Wobblers'', Fuzzy, 80)] \<and>
   int (length (get_song_matches_with_duration example_env (PyStr ''Hello'') None 5 60)) \<le> 5 \<and>
   sorted (map (\<lambda>m. tier_rank (match_type m))
     (get_song_matches_with_duration example_env (PyStr ''Hello'') None 5 60))"
proof -
  have v: "map (\<lambda>m. (song m, artist m, match_type m, match_score m))
     (get_song_matches_with_duration example_env (PyStr ''Hello'') None 5 60) =
     [(''Hello'', ''Adele'', Exact, 100), (''Hello'', ''Lionel Richie'', Exact, 100),
      (''Hello Again'', ''Neil Diamond'', Contains, 85), (''Jello'', ''The Wobblers'', Fuzzy, 80)]"
    by code_simp
  from matches_bounded_and_tier_ordered [of 5 example_env "PyStr ''Hello''" None 60]
  have "int (length (get_song_matches_with_duration example_env (PyStr ''Hello'') None 5 60)) \<le> 5"
    "sorted (map (\<lambda>m. tier_rank (match_type m))
       (get_song_matches_with_duration example_env (PyStr ''Hello'') None 5 60))"
    by simp_all
  with v show ?thesis by simp
qed

lemma filter_take_append:
  assumes "\<forall>x \<in> set xs. P x" "\<forall>y \<in> set ys. \<not> P y"
  shows "filter P (take k (xs @ ys)) = take k xs"
proof -
  have "filter P (take k xs) = take k xs"
    using assms(1) by (auto simp: filter_id_conv dest: in_set_takeD)
  moreover have "filter P (take (k - length xs) ys) = []"
    using assms(2) by (auto simp: filter_empty_conv dest: in_set_takeD)
  ultimately show ?thesis by simp
qed

text \<open>
  C4, as the code has it: the tiers deduplicate against each other, not within themselves.
  Two entries of different tiers never have the same title (compared in lower case), and
  the entries of the exact and contains tiers are pairwise different (song, artist)
  aggregates; the same title by two artists is returned once for each of them.
\<close>

theorem titles_differ_across_tiers:
  "(\<forall>a \<in> set (get_song_matches_with_duration env q artist_name max_results thr).
    \<forall>b \<in> set (get_song_matches_with_duration env q artist_name max_results thr).
      match_type a \<noteq> match_type b \<longrightarrow> lower (song a) \<noteq> lower (song b)) \<and>
   distinct (map match_key (filter (\<lambda>m. match_type m \<noteq> Fuzzy)
      (get_song_matches_with_duration env q artist_name max_results thr)))"
proof -
  obtain q' es cs fs k where
    r: "get_song_matches_with_duration env q artist_name max_results thr = take k (es @ cs @ fs)" and
    sh: "tier_shape q' es cs fs"
    using matches_shape by blast
  have cross: "match_type a \<noteq> match_type b \<longrightarrow> lower (song a) \<noteq> lower (song b)"
    if "a \<in> set (es @ cs @ fs)" "b \<in> set (es @ cs @ fs)" for a b
  proof -
    have E: "match_type m = Exact \<and> lower (song m) = lower q'" if "m \<in> set es" for m
      using that sh by (simp add: tier_shape_def)
    have C: "match_type m = Contains \<and> lower (song m) \<noteq> lower q'" if "m \<in> set cs" for m
      using that sh by (simp add: tier_shape_def)
    have Ft: "match_type m = Fuzzy" if "m \<in> set fs" for m
      using that sh by (simp add: tier_shape_def)
    have Fd: "lower (song m) \<noteq> lower (song x)"
      if "m \<in> set fs" "x \<in> set es \<or> x \<in> set cs" for m x
      using that sh by (auto simp: tier_shape_def)
    from that have "a \<in> set es \<or> a \<in> set cs \<or> a \<in> set fs" "b \<in> set es \<or> b \<in> set cs \<or> b \<in> set fs"
      by auto
    moreover have "?thesis" if "a \<in> set es" "b \<in> set es" using E [OF that(1)] E [OF that(2)] by auto
    moreover have "?thesis" if "a \<in> set es" "b \<in> set cs" using E [OF that(1)] C [OF that(2)] by auto
    moreover have "?thesis" if "a \<in> set es" "b \<in> set fs" using Fd [OF that(2), of a] that(1) by auto
    moreover have "?thesis" if "a \<in> set cs" "b \<in> set es" using C [OF that(1)] E [OF that(2)] by auto
    moreover have "?thesis" if "a \<in> set cs" "b \<in> set cs" using C [OF that(1)] C [OF that(2)] by auto
    moreover have "?thesis" if "a \<in> set cs" "b \<in> set fs" using Fd [OF that(2), of a] that(1) by auto
    moreover have "?thesis" if "a \<in> set fs" "b \<in> set es" using Fd [OF that(1), of b] that(2) by auto
    moreover have "?thesis" if "a \<in> set fs" "b \<in> set cs" using Fd [OF that(1), of b] that(2) by auto
    moreover have "?thesis" if "a \<in> set fs" "b \<in> set fs" using Ft [OF that(1)] Ft [OF that(2)] by auto
    ultimately show ?thesis by blast
  qed
  have 1: "\<forall>a \<in> set (take k (es @ cs @ fs)). \<forall>b \<in> set (take k (es @ cs @ fs)).
      match_type a \<noteq> match_type b \<longrightarrow> lower (song a) \<noteq> lower (song b)"
    using cross by (meson in_set_takeD)
  have "filter (\<lambda>m. match_type m \<noteq> Fuzzy) (take k ((es @ cs) @ fs)) = take k (es @ cs)"
    by (rule filter_take_append) (use sh in \<open>auto simp: tier_shape_def\<close>)
  moreover have "distinct (map match_key (take k (es @ cs)))"
  proof -
    have "distinct (map match_key (es @ cs))"
      using sh unfolding tier_shape_def by blast
    then have "distinct (take k (map match_key (es @ cs)))"
      by (rule distinct_take)
    then show ?thesis by (simp only: take_map)
  qed
  ultimately have 2: "distinct (map match_key (filter (\<lambda>m. match_type m \<noteq> Fuzzy) (take k (es @ cs @ fs))))"
    by simp
  from 1 2 show ?thesis unfolding r by blast
qed

theorem titles_differ_witness:
  "map (\<lambda>m. (lower (song m), match_type m))
     (get_song_matches_with_duration example_env (PyStr ''Hello'') None 5 60) =
     [(''hello'', Exact), (''hello'', Exact), (''hello again'', Contains), (''jello'', Fuzzy)] \<and>
   distinct (map match_key (filter (\<lambda>m. match_type m \<noteq> Fuzzy)
     (get_song_matches_with_duration example_env (PyStr ''Hello'') None 5 60)))"
proof -
  have v: "map (\<lambda>m. (lower (song m), match_type m))
     (get_song_matches_with_duration example_env (PyStr ''Hello'') None 5 60) =
     [(''hello'', Exact), (''hello'', Exact), (''hello again'', Contains), (''jello'', Fuzzy)]"
    by code_simp
  from titles_differ_across_tiers [of example_env "PyStr ''Hello''" None 5 60]
  have "distinct (map match_key (filter (\<lambda>m. match_type m \<noteq> Fuzzy)
     (get_song_matches_with_duration example_env (PyStr ''Hello'') None 5 60)))"
    by blast
  with v show ?thesis by simp
qed

text \<open>
  The claim as the spec states it fails: with a bound of 2, the query \<^verbatim>\<open>Hello\<close> returns
  the exact matches by Adele and by Lionel Richie, two entries with one title.
\<close>

theorem same_title_twice_counterexample:
  "map (\<lambda>m. (song m, artist m, match_type m))
     (get_song_matches_with_duration example_env (PyStr ''Hello'') None 2 60) =
     [(''Hello'', ''Adele'', Exact), (''Hello'', ''Lionel Richie'', Exact)] \<and>
   \<not> distinct (map (\<lambda>m. lower (song m))
     (get_song_matches_with_duration example_env (PyStr ''Hello'') None 2 60))"
  by code_simp

section \<open>Properties of the answer formatter\<close>

lemma length_takeWhile_all: "list_all P xs \<Longrightarrow> length (takeWhile P xs) = length xs"
  by (induction xs) auto

lemma str_nat_nonempty: "str_nat n \<noteq> []"
  by (subst str_nat.simps) simp

lemma digit_at: "k < 10 \<Longrightarrow> is_digit (''0123456789'' ! k)"
proof -
  assume "k < 10"
  then have "k = 0 \<or> k = 1 \<or> k = 2 \<or> k = 3 \<or> k = 4 \<or> k = 5 \<or> k = 6 \<or> k = 7 \<or> k = 8 \<or> k = 9" by arith
  then show ?thesis by (elim disjE) (simp_all add: is_digit_def)
qed

lemma str_nat_digits: "list_all is_digit (str_nat n)"
proof (induction n rule: str_nat.induct)
  case (1 n)
  show ?case
  proof (cases "n < 10")
    case True
    then show ?thesis by (subst str_nat.simps) (simp add: digit_at)
  next
    case False
    with 1 show ?thesis by (subst str_nat.simps) (simp add: digit_at)
  qed
qed

lemma str_int_chars: "\<forall>c \<in> set (str_int i). is_digit c \<or> c = CHR ''-''"
  using str_nat_digits by (auto simp: str_int_def list_all_iff)

lemma str_int_nonempty: "str_int i \<noteq> []"
  by (simp add: str_int_def str_nat_nonempty)

lemma str_int_no_nl: "CHR 0x0A \<notin> set (str_int i)"
proof
  assume "CHR 0x0A \<in> set (str_int i)"
  with str_int_chars [of i] have "is_digit (CHR 0x0A) \<or> CHR 0x0A = CHR ''-''" by blast
  then show False by (simp add: is_digit_def)
qed

lemma str_int_Cons: "\<exists>c cs. str_int i = c # cs \<and> (is_digit c \<or> c = CHR ''-'')"
proof (cases "str_int i")
  case Nil
  then show ?thesis using str_int_nonempty [of i] by simp
next
  case (Cons c cs)
  then have "c \<in> set (str_int i)" by simp
  with str_int_chars [of i] have "is_digit c \<or> c = CHR ''-''" by blast
  with Cons show ?thesis by blast
qed

lemma split_from_append:
  "sep \<notin> set a \<Longrightarrow> split_from sep cur (a @ rest) = split_from sep (cur @ a) rest"
proof (induction a arbitrary: cur)
  case Nil
  then show ?case by simp
next
  case (Cons x a)
  then have "x \<noteq> sep" "sep \<notin> set a" by auto
  with Cons.IH [of "cur @ [x]"] show ?case by simp
qed

lemma str_int_not_P [simp]:
  "str_int i @ xs \<noteq> CHR ''P'' # ys" "CHR ''P'' # ys \<noteq> str_int i @ xs"
proof -
  obtain c cs where "str_int i = c # cs" "is_digit c \<or> c = CHR ''-''"
    using str_int_Cons by blast
  moreover have "c \<noteq> CHR ''P''" using calculation(2) by (auto simp: is_digit_def)
  ultimately show "str_int i @ xs \<noteq> CHR ''P'' # ys" "CHR ''P'' # ys \<noteq> str_int i @ xs"
    by auto
qed

lemma duration_info_lines:
  "split_lines (duration_info m) =
     [emoji_bar_chart @ '' **Chart Performance:**'',
      bullet @ '' **'' @ str_int (weeks_on_chart m) @ '' weeks** on Billboard Hot 100'',
      bullet @ '' **Best position:** #'' @ str_int (best_rank m)] @
     (if peak_rank m \<noteq> best_rank m then [peak_line m] else []) @
     split_lines (performance_comment (weeks_on_chart m))"
  unfolding duration_info_def split_lines_def py_split_def peak_line_def nl_def bullet_def emoji_bar_chart_def
  by (simp add: split_from_append str_int_no_nl)

lemma header_lines:
  assumes "CHR 0x0A \<notin> set (song m)" "CHR 0x0A \<notin> set (artist m)"
  shows "split_lines (single_header m @ rest) =
     [emoji_note @ '' **'' @ song m @ ''** by *'' @ artist m @ ''* ('' @ str_int (year m) @ '')'', []] @
     split_lines rest"
proof -
  let ?h = "emoji_note @ '' **'' @ song m @ ''** by *'' @ artist m @ ''* ('' @ str_int (year m) @ '')''"
  have n: "CHR 0x0A \<notin> set ?h"
    using assms str_int_no_nl [of "year m"] by (simp add: emoji_note_def)
  have "single_header m @ rest = ?h @ (CHR 0x0A # CHR 0x0A # rest)"
    by (simp add: single_header_def nl_def)
  then have "split_lines (single_header m @ rest) = split_from (CHR 0x0A) ([] @ ?h) (CHR 0x0A # CHR 0x0A # rest)"
    unfolding split_lines_def py_split_def
    by (simp only: split_from_append [OF n])
  then show ?thesis
    by (simp add: split_lines_def py_split_def)
qed

lemma comment_lines:
  "bullet @ '' **Peak rank:** #'' @ str_int r \<notin> set (split_lines (performance_comment w))"
  unfolding performance_comment_def split_lines_def py_split_def nl_def bullet_def
    emoji_fire_def emoji_star_def emoji_thumbs_up_def emoji_chart_up_def
  by simp

text \<open>
  C8, as the code has it: the title and the artist are copied into the answer as they are.
  For a single match whose title and artist contain no line feed, the lines of the answer
  contain the line \<^verbatim>\<open>* **Peak rank:** #<peak_rank>\<close> (with the bullet character for the
  asterisk) exactly when the match's \<open>peak_rank\<close> differs from its \<open>best_rank\<close>; the line
  then follows the line of the best position.
\<close>

theorem peak_rank_line_iff_ranks_differ:
  assumes "CHR 0x0A \<notin> set (song m)" and "CHR 0x0A \<notin> set (artist m)"
  shows "(bullet @ '' **Peak rank:** #'' @ str_int (peak_rank m)
            \<in> set (split_lines (format_song_duration_results [m] q))
          \<longleftrightarrow> peak_rank m \<noteq> best_rank m) \<and>
         split_lines (format_song_duration_results [m] q) =
           [emoji_note @ '' **'' @ song m @ ''** by *'' @ artist m @ ''* ('' @ str_int (year m) @ '')'',
            [],
            emoji_bar_chart @ '' **Chart Performance:**'',
            bullet @ '' **'' @ str_int (weeks_on_chart m) @ '' weeks** on Billboard Hot 100'',
            bullet @ '' **Best position:** #'' @ str_int (best_rank m)] @
           (if peak_rank m \<noteq> best_rank m
            then [bullet @ '' **Peak rank:** #'' @ str_int (peak_rank m)] else []) @
           split_lines (performance_comment (weeks_on_chart m))"
proof -
  let ?p = "bullet @ '' **Peak rank:** #'' @ str_int (peak_rank m)"
  have l: "split_lines (format_song_duration_results [m] q) =
           [emoji_note @ '' **'' @ song m @ ''** by *'' @ artist m @ ''* ('' @ str_int (year m) @ '')'',
            [],
            emoji_bar_chart @ '' **Chart Performance:**'',
            bullet @ '' **'' @ str_int (weeks_on_chart m) @ '' weeks** on Billboard Hot 100'',
            bullet @ '' **Best position:** #'' @ str_int (best_rank m)] @
           (if peak_rank m \<noteq> best_rank m then [?p] else []) @
           split_lines (performance_comment (weeks_on_chart m))"
    by (simp add: format_song_duration_results_def header_lines [OF assms] duration_info_lines
        peak_line_def)
  have 1: "?p \<noteq> emoji_note @ '' **'' @ song m @ ''** by *'' @ artist m @ ''* ('' @ str_int (year m) @ '')''"
    by (simp add: bullet_def emoji_note_def)
  have 2: "?p \<noteq> []" by (simp add: bullet_def)
  have 3: "?p \<noteq> emoji_bar_chart @ '' **Chart Performance:**''"
    by (simp add: bullet_def emoji_bar_chart_def)
  have 4: "?p \<noteq> bullet @ '' **'' @ str_int (weeks_on_chart m) @ '' weeks** on Billboard Hot 100''"
    by simp
  have 5: "?p \<noteq> bullet @ '' **Best position:** #'' @ str_int (best_rank m)"
    by simp
  have "?p \<in> set (split_lines (format_song_duration_results [m] q)) \<longleftrightarrow> peak_rank m \<noteq> best_rank m"
    unfolding l using 1 2 3 4 5 comment_lines [of "peak_rank m" "weeks_on_chart m"]
    by simp
  with l show ?thesis by blast
qed

theorem peak_rank_line_witness:
  "CHR 0x0A \<notin> set ''Hello Again'' \<and> CHR 0x0A \<notin> set ''Neil Diamond'' \<and>
   bullet @ '' **Peak rank:** #'' @ str_int 6
     \<in> set (split_lines (format_song_duration_results
       [\<lparr>song = ''Hello Again'', artist = ''Neil Diamond'', weeks_on_chart = 12, best_rank = 40,
         peak_rank = 6, year = 1981, match_score = 100, match_type = Exact\<rparr>] ''hello again'')) \<and>
   CHR 0x0A \<notin> set ''Jello'' \<and> CHR 0x0A \<notin> set ''The Wobblers'' \<and>
   bullet @ '' **Peak rank:** #'' @ str_int 77
     \<notin> set (split_lines (format_song_duration_results
       [\<lparr>song = ''Jello'', artist = ''The Wobblers'', weeks_on_chart = 1, best_rank = 77,
         peak_rank = 77, year = 1984, match_score = 100, match_type = Exact\<rparr>] ''jello''))"
proof -
  let ?a = "\<lparr>song = ''Hello Again'', artist = ''Neil Diamond'', weeks_on_chart = 12, best_rank = 40,
         peak_rank = 6, year = 1981, match_score = 100, match_type = Exact\<rparr>"
  let ?b = "\<lparr>song = ''Jello'', artist = ''The Wobblers'', weeks_on_chart = 1, best_rank = 77,
         peak_rank = 77, year = 1984, match_score = 100, match_type = Exact\<rparr>"
  have a: "CHR 0x0A \<notin> set (song ?a)" "CHR 0x0A \<notin> set (artist ?a)" by simp_all
  have b: "CHR 0x0A \<notin> set (song ?b)" "CHR 0x0A \<notin> set (artist ?b)" by simp_all
  from peak_rank_line_iff_ranks_differ [OF a, of "''hello again''", THEN conjunct1]
  have 1: "bullet @ '' **Peak rank:** #'' @ str_int 6
     \<in> set (split_lines (format_song_duration_results [?a] ''hello again''))"
    by simp
  from peak_rank_line_iff_ranks_differ [OF b, of "''jello''", THEN conjunct1]
  have 2: "bullet @ '' **Peak rank:** #'' @ str_int 77
     \<notin> set (split_lines (format_song_duration_results [?b] ''jello''))"
    by simp
  from a b 1 2 show ?thesis by simp
qed

text \<open>
  The claim as the spec states it fails for a title that brings such a line with it: the
  match below has equal ranks, and the second line of its title is a peak-rank line of
  the answer.
\<close>

theorem title_with_peak_line_counterexample:
  "peak_rank \<lparr>song = ''Medley'' @ nl @ bullet @ '' **Peak rank:** #5'' @ nl @ ''Part 2'',
      artist = ''The Wobblers'', weeks_on_chart = 1, best_rank = 5, peak_rank = 5, year = 1984,
      match_score = 100, match_type = Exact\<rparr> =
   best_rank \<lparr>song = ''Medley'' @ nl @ bullet @ '' **Peak rank:** #5'' @ nl @ ''Part 2'',
      artist = ''The Wobblers'', weeks_on_chart = 1, best_rank = 5, peak_rank = 5, year = 1984,
      match_score = 100, match_type = Exact\<rparr> \<and>
   bullet @ '' **Peak rank:** #5''
     \<in> set (split_lines (format_song_duration_results
       [\<lparr>song = ''Medley'' @ nl @ bullet @ '' **Peak rank:** #5'' @ nl @ ''Part 2'',
         artist = ''The Wobblers'', weeks_on_chart = 1, best_rank = 5, peak_rank = 5, year = 1984,
         match_score = 100, match_type = Exact\<rparr>] ''medley''))"
  by code_simp

section \<open>Properties of the regular-expression matcher\<close>










section \<open>Properties of the intent parser\<close>














lemma digits_group:
  "denotes (Rep1 Digit) g gs' \<Longrightarrow> decimal_digits g"
  "denotes (RepN (Suc k) Digit) g gs' \<Longrightarrow> decimal_digits g \<and> length g = Suc k"
  by (auto simp: decimal_digits_def list_all_iff)











lemma from_flan_capped: "from_flan d = Inr r \<Longrightarrow> r_n r \<le> 50"
proof -
  assume a: "from_flan d = Inr r"
  have n: "n \<le> 50"
    if "(if b then map_sum id (\<lambda>n. min n 50) x else Inr 10) = Inr n" for b x and n :: int
    using that by (cases x) (auto split: if_splits)
  from a show ?thesis
    by (auto simp: from_flan_def Let_def split: sum.splits dest: n)
qed

text \<open>The fall-back path can raise too: \<^verbatim>\<open>isdigit\<close> lets a superscript through to \<^verbatim>\<open>int\<close>.\<close>

lemma from_flan_superscript:
  "from_flan (parse_flan_output_to_dict (''intent: top_songs; n: '' @ [CHR 0xB2])) =
     Inl (ValueError (''invalid literal for int() with base 10: '' @ sq @ [CHR 0xB2] @ sq))"
  by code_simp

text \<open>
  C6 fails on the code's own example. The comment beside the second decade pattern names
  the query \<^verbatim>\<open>top songs from 2000s\<close>, and that pattern does match it with the token
  \<^verbatim>\<open>2000\<close>; but the rule for a year without a count is tried before the decade rule, its
  pattern \<^verbatim>\<open>top\s+songs?\s+(?:of|from|in)\s+(\d{4})\<close> matches the same text as far as the
  four digits, and the parser answers \<open>top_songs\<close> for the year 2000 with a count of 10.
  The queries \<^verbatim>\<open>best songs from 1990s\<close> and \<^verbatim>\<open>best hits of 1980s\<close> go the same way. (A query
  that the decade rule does answer gets the decade start of the claim and the count 20,
  lemma \<open>decade_result\<close>.)
\<close>

theorem decade_query_answered_by_year_rule:
  "re_search (decade_patterns ! 1) ''top songs from 2000s'' = Some [''2000''] \<and>
   enhanced_query_parser ''top songs from 2000s'' =
     Inr (empty_result\<lparr>q_intent := Some ''top_songs'', q_year := Some 2000, q_n := Some 10\<rparr>) \<and>
   enhanced_query_parser ''best songs from 1990s'' =
     Inr (empty_result\<lparr>q_intent := Some ''top_songs'', q_year := Some 1990, q_n := Some 10\<rparr>) \<and>
   enhanced_query_parser ''best hits of 1980s'' =
     Inr (empty_result\<lparr>q_intent := Some ''top_songs'', q_year := Some 1980, q_n := Some 10\<rparr>)"
  by code_simp

text \<open>
  C3 fails on the rule cascade: the count of the patterns with an explicit number is taken
  as it is written. The query \<^verbatim>\<open>top 100 songs of 2020\<close> gives \<open>n = 100\<close>, in the parser's
  result and in what the orchestrator extracts from it. (The fall-back path caps the count
  at 50, lemma \<open>from_flan_capped\<close>; the default of 10 and the decade count of 20 are in
  \<open>top_default_result\<close> and \<open>decade_result\<close>.)
\<close>

theorem regex_path_count_not_capped:
  "enhanced_query_parser ''top 100 songs of 2020'' =
     Inr (empty_result\<lparr>q_intent := Some ''top_songs'', q_n := Some 100, q_year := Some 2020\<rparr>) \<and>
   extract_request example_env ''top 100 songs of 2020'' =
     Inr \<lparr>r_intent = ''top_songs'', r_year = Some 2020, r_n = 100, r_song = [], r_artist = [],
          r_decade_start = None\<rparr>"
  by code_simp

section \<open>Properties of the orchestrator\<close>

lemma digit_value_at: "k < 10 \<Longrightarrow> digit_value (''0123456789'' ! k) = k"
proof -
  assume "k < 10"
  then have "k = 0 \<or> k = 1 \<or> k = 2 \<or> k = 3 \<or> k = 4 \<or> k = 5 \<or> k = 6 \<or> k = 7 \<or> k = 8 \<or> k = 9" by arith
  then show ?thesis by (elim disjE) (simp_all add: digit_value_def)
qed

lemma foldl_digits_str_nat:
  "foldl (\<lambda>a c. 10 * a + digit_value c) 0 (str_nat n) = n"
proof (induction n rule: str_nat.induct)
  case (1 n)
  show ?case
  proof (cases "n < 10")
    case True
    then show ?thesis by (subst str_nat.simps) (simp add: digit_value_at)
  next
    case False
    then have "foldl (\<lambda>a c. 10 * a + digit_value c) 0 (str_nat (n div 10)) = n div 10"
      using 1 by simp
    with False show ?thesis by (subst str_nat.simps) (simp add: digit_value_at)
  qed
qed

lemma py_int_str_nat:
  assumes "length (str_nat n) \<le> int_max_str_digits"
  shows "py_int (str_nat n) = Inr (int n)"
proof -
  have "length (takeWhile is_digit (str_nat n)) = length (str_nat n)"
    using str_nat_digits [of n] by (rule length_takeWhile_all)
  with assms show ?thesis
    by (simp add: py_int_def Let_def str_nat_nonempty foldl_digits_str_nat)
qed

lemma length_str_nat_4:
  assumes "1000 \<le> n" "n \<le> 9999"
  shows "length (str_nat n) = 4"
proof -
  have a: "\<not> n < 10" "\<not> n div 10 < 10" "\<not> n div 10 div 10 < 10" "n div 10 div 10 div 10 < 10"
    using assms by auto
  show ?thesis
    apply (subst str_nat.simps)
    apply (simp only: a if_False)
    apply (subst str_nat.simps)
    apply (simp only: a if_False)
    apply (subst str_nat.simps)
    apply (simp only: a if_False)
    apply (subst str_nat.simps)
    apply (simp only: a if_True)
    apply simp
    done
qed

lemma four_digit_year:
  assumes "1000 \<le> y" "y \<le> 9999"
  shows "\<exists>d1 d2 d3 d4. str_int y = [d1, d2, d3, d4] \<and>
     is_digit d1 \<and> is_digit d2 \<and> is_digit d3 \<and> is_digit d4 \<and> py_int [d1, d2, d3, d4] = Inr y"
proof -
  have s: "str_int y = str_nat (nat y)" using assms by (simp add: str_int_def)
  have "length (str_nat (nat y)) = 4" using assms by (intro length_str_nat_4) auto
  then obtain d1 d2 d3 d4 where d: "str_nat (nat y) = [d1, d2, d3, d4]"
    by (auto simp: length_Suc_conv numeral_eq_Suc)
  have "list_all is_digit (str_nat (nat y))" by (rule str_nat_digits)
  with d have "is_digit d1 \<and> is_digit d2 \<and> is_digit d3 \<and> is_digit d4" by simp
  moreover have "py_int (str_nat (nat y)) = Inr y"
    using assms \<open>length (str_nat (nat y)) = 4\<close>
    by (simp add: py_int_str_nat int_max_str_digits_def)
  ultimately show ?thesis using s d by auto
qed

lemma digit_cases:
  "is_digit d \<Longrightarrow> d = CHR ''0'' \<or> d = CHR ''1'' \<or> d = CHR ''2'' \<or> d = CHR ''3'' \<or> d = CHR ''4'' \<or>
     d = CHR ''5'' \<or> d = CHR ''6'' \<or> d = CHR ''7'' \<or> d = CHR ''8'' \<or> d = CHR ''9''"
  by (simp add: is_digit_def)

lemma digit_not_space: "is_digit d \<Longrightarrow> \<not> is_space d"
  by (drule digit_cases) (elim disjE; simp add: is_space_def)

lemma digit_lower: "is_digit d \<Longrightarrow> lower_char d = d"
  by (drule digit_cases) (elim disjE; simp add: lower_char_def)

lemma literal_classes:
  "is_space CHR '' ''" "\<not> is_digit CHR '' ''" "\<not> is_space CHR ''t''" "\<not> is_space CHR ''s''"
  "\<not> is_space CHR ''o''" "\<not> is_digit CHR ''s''" "\<not> is_digit CHR ''t''"
  "is_digit CHR ''1''" "is_digit CHR ''0''" "\<not> is_space CHR ''1''" "\<not> is_space CHR ''0''"
  "\<not> is_digit CHR ''o''" "\<not> is_space CHR ''f''" "\<not> is_digit CHR ''f''"
  by (simp_all add: is_digit_def is_space_def)


lemma query_lower_top10:
  assumes "is_digit d1" "is_digit d2" "is_digit d3" "is_digit d4"
  shows "strip (lower (''top 10 songs of '' @ [d1, d2, d3, d4])) = ''top 10 songs of '' @ [d1, d2, d3, d4]"
proof -
  have "lower (''top 10 songs of '' @ [d1, d2, d3, d4]) = ''top 10 songs of '' @ [d1, d2, d3, d4]"
    using assms by (simp add: lower_def digit_lower) (simp add: lower_char_def)
  moreover have "strip (''top 10 songs of '' @ [d1, d2, d3, d4]) = ''top 10 songs of '' @ [d1, d2, d3, d4]"
    using assms by (simp add: strip_def lstrip_def rstrip_def digit_not_space literal_classes)
  ultimately show ?thesis by simp
qed

lemma search_top10:
  assumes "is_digit d1" "is_digit d2" "is_digit d3" "is_digit d4"
  shows "re_search (seqs [Lit ''top'', re_ws, Group (Rep1 Digit), re_ws, re_songs, re_ws,
            re_of_from_in, re_ws, Group (RepN 4 Digit)]) (''top 10 songs of '' @ [d1, d2, d3, d4]) =
         Some [''10'', [d1, d2, d3, d4]]"
  using assms
  by (simp add: re_ws_def re_songs_def re_of_from_in_def span_def literal_classes digit_not_space)

lemma parse_top10:
  assumes "is_digit d1" "is_digit d2" "is_digit d3" "is_digit d4" "py_int [d1, d2, d3, d4] = Inr y"
  shows "enhanced_query_parser (''top 10 songs of '' @ [d1, d2, d3, d4]) =
     Inr (empty_result\<lparr>q_intent := Some ''top_songs'', q_n := Some 10, q_year := Some y\<rparr>)"
proof -
  have ten: "py_int ''10'' = Inr 10"
    by (simp add: py_int_def is_digit_def digit_value_def int_max_str_digits_def)
  have "scan_patterns top_n_body top_year_patterns (''top 10 songs of '' @ [d1, d2, d3, d4]) =
     top_n_body [''10'', [d1, d2, d3, d4]]"
    unfolding top_year_patterns_def
    by (simp only: scan_patterns.simps search_top10 [OF assms(1-4)] option.case)
      (simp add: top_n_body_def)
  also have "\<dots> = Some (Inr (empty_result\<lparr>q_intent := Some ''top_songs'', q_n := Some 10,
      q_year := Some y\<rparr>))"
    using assms(5) ten by (simp add: top_n_body_def)
  finally show ?thesis
    unfolding enhanced_query_parser_def Let_def query_lower_top10 [OF assms(1-4)]
    by simp
qed

text \<open>
  C7, as the code has it: the year patterns read exactly four digits. For every year
  from 1000 to 9999 that lies outside the range of the store, the answer to
  \<^verbatim>\<open>top 10 songs of <year>\<close> is the out-of-range message, which names the year and the fixed
  range 1958-2021.
\<close>

theorem out_of_range_four_digit_year:
  assumes "1000 \<le> y" and "y \<le> 9999" and "\<not> validate_year_range env y"
  shows "respond_to_query env (PyStr (''top 10 songs of '' @ str_int y)) = out_of_range_message y"
proof -
  from four_digit_year [OF assms(1,2)] obtain d1 d2 d3 d4 where
    s: "str_int y = [d1, d2, d3, d4]" and
    d: "is_digit d1" "is_digit d2" "is_digit d3" "is_digit d4" and
    v: "py_int [d1, d2, d3, d4] = Inr y"
    by blast
  have p: "enhanced_query_parser (''top 10 songs of '' @ [d1, d2, d3, d4]) =
     Inr (empty_result\<lparr>q_intent := Some ''top_songs'', q_n := Some 10, q_year := Some y\<rparr>)"
    using d v by (rule parse_top10)
  have ne: "empty_result\<lparr>q_intent := Some ''top_songs'', q_n := Some 10, q_year := Some y\<rparr> \<noteq> empty_result"
    by (simp add: empty_result_def)
  have e: "extract_request env (''top 10 songs of '' @ [d1, d2, d3, d4]) =
     Inr \<lparr>r_intent = ''top_songs'', r_year = Some y, r_n = 10, r_song = [], r_artist = [],
          r_decade_start = None\<rparr>"
    unfolding extract_request_def p using ne
    by (simp add: from_enhanced_def empty_result_def)
  have y0: "y \<noteq> 0" using assms(1) by simp
  have "route env \<lparr>r_intent = ''top_songs'', r_year = Some y, r_n = 10, r_song = [], r_artist = [],
          r_decade_start = None\<rparr> = out_of_range_message y"
    using assms(3) y0 by (simp add: route_def)
  then show ?thesis
    unfolding s respond_to_query_def using e by simp
qed


theorem out_of_range_witness:
  "(1000::int) \<le> 1900 \<and> (1900::int) \<le> 9999 \<and> \<not> validate_year_range example_env 1900 \<and>
   respond_to_query example_env (PyStr (''top 10 songs of '' @ str_int 1900)) =
     out_of_range_message 1900"
proof -
  have v: "\<not> validate_year_range example_env 1900" by code_simp
  from out_of_range_four_digit_year [of 1900 example_env] v
  show ?thesis by simp
qed

text \<open>
  The claim as the spec states it fails for a year that is not written with four digits:
  19840 lies outside the range of the example store, the pattern reads its first four
  digits, and the answer is the list of the top songs of 1984.
\<close>

theorem five_digit_year_counterexample:
  "\<not> validate_year_range example_env 19840 \<and>
   respond_to_query example_env (PyStr (''top 10 songs of '' @ str_int 19840)) =
     format_top_songs (get_top_songs_by_year example_env 1984 10) 1984 10 \<and>
   respond_to_query example_env (PyStr (''top 10 songs of '' @ str_int 19840)) \<noteq>
     out_of_range_message 19840"
proof -
  have v: "\<not> validate_year_range example_env 19840" by code_simp
  have w: "validate_year_range example_env 1984" by code_simp
  have s: "str_int 19840 = ''19840''"
    by (simp add: str_int_def str_nat.simps)
  have e: "extract_request example_env ''top 10 songs of 19840'' =
     Inr \<lparr>r_intent = ''top_songs'', r_year = Some 1984, r_n = 10, r_song = [], r_artist = [],
          r_decade_start = None\<rparr>"
    by code_simp
  have "route example_env \<lparr>r_intent = ''top_songs'', r_year = Some 1984, r_n = 10, r_song = [],
      r_artist = [], r_decade_start = None\<rparr> =
     format_top_songs (get_top_songs_by_year example_env 1984 10) 1984 10"
    using w by (simp add: route_def)
  then have r: "respond_to_query example_env (PyStr (''top 10 songs of '' @ str_int 19840)) =
     format_top_songs (get_top_songs_by_year example_env 1984 10) 1984 10"
    unfolding s respond_to_query_def using e by simp
  have n: "get_top_songs_by_year example_env 1984 10 \<noteq> []" by code_simp
  have "format_top_songs (get_top_songs_by_year example_env 1984 10) 1984 10 \<noteq>
     out_of_range_message 19840"
    using n by (simp add: format_top_songs_def out_of_range_message_def emoji_note_def emoji_calendar_def)
  with v r show ?thesis by simp
qed

section \<open>Properties of the clean-up of captured names\<close>

lemma space_not_word: "is_space c \<Longrightarrow> \<not> is_word c"
  by (simp add: is_space_def is_word_def) (elim disjE; simp)

text \<open>Word runs.\<close>

lemma word_runs_from_word_prefix:
  "list_all is_word x \<Longrightarrow> word_runs_from r (x @ s) = word_runs_from (r @ x) s"
  by (induction x arbitrary: r) simp_all

lemma word_runs_from_nonword_suffix:
  "list_all (\<lambda>c. \<not> is_word c) t \<Longrightarrow> word_runs_from r (s @ t) = word_runs_from r s"
proof (induction s arbitrary: r)
  case Nil
  then show ?case by (induction t arbitrary: r) simp_all
next
  case (Cons c s)
  then show ?case by simp
qed

lemma word_runs_sub_word_from:
  "list_all is_word run \<Longrightarrow>
   word_runs_from [] (sub_word_from w run s) =
     filter (\<lambda>t. lower t \<noteq> lower w) (word_runs_from run s)"
proof (induction s arbitrary: run)
  case Nil
  have "list_all is_word (keep_unless w run)"
    using Nil by (simp add: keep_unless_def)
  from word_runs_from_word_prefix [OF this, of "[]" "[]"]
  show ?case by (simp add: keep_unless_def)
next
  case (Cons c s)
  show ?case
  proof (cases "is_word c")
    case True
    with Cons show ?thesis by simp
  next
    case False
    have k: "list_all is_word (keep_unless w run)"
      using Cons.prems by (simp add: keep_unless_def)
    have "word_runs_from [] (keep_unless w run @ c # sub_word_from w [] s) =
        word_runs_from (keep_unless w run) (c # sub_word_from w [] s)"
      using word_runs_from_word_prefix [OF k, of "[]"] by simp
    also have "\<dots> = (if keep_unless w run = [] then [] else [keep_unless w run]) @
        word_runs_from [] (sub_word_from w [] s)"
      using False by simp
    also have "\<dots> = filter (\<lambda>t. lower t \<noteq> lower w) ((if run = [] then [] else [run]) @ word_runs_from [] s)"
      using Cons.IH [of "[]"] by (simp add: keep_unless_def)
    finally show ?thesis using False by simp
  qed
qed

lemma word_runs_sub_whole_word:
  "word_runs (sub_whole_word w s) = filter (\<lambda>t. lower t \<noteq> lower w) (word_runs s)"
  unfolding word_runs_def sub_whole_word_def
  by (rule word_runs_sub_word_from) simp

lemma sub_word_from_id:
  "\<forall>t \<in> set (word_runs_from run s). lower t \<noteq> lower w \<Longrightarrow> sub_word_from w run s = run @ s"
proof (induction s arbitrary: run)
  case Nil
  then show ?case by (auto simp: keep_unless_def split: if_splits)
next
  case (Cons c s)
  show ?case
  proof (cases "is_word c")
    case True
    with Cons show ?thesis by simp
  next
    case False
    with Cons.prems have k: "keep_unless w run = run"
      and "\<forall>t \<in> set (word_runs_from [] s). lower t \<noteq> lower w"
      by (auto simp: keep_unless_def split: if_splits)
    with Cons.IH [of "[]"] False show ?thesis by simp
  qed
qed

lemma sub_whole_word_id:
  "\<forall>t \<in> set (word_runs s). lower t \<noteq> lower w \<Longrightarrow> sub_whole_word w s = s"
  unfolding word_runs_def sub_whole_word_def
  using sub_word_from_id [of "[]" s w] by simp

text \<open>Stripping.\<close>

lemma rstrip_split: "\<exists>sp. s = rstrip s @ sp \<and> list_all is_space sp"
proof -
  have "rstrip s @ rev (takeWhile is_space (rev s)) =
      rev (takeWhile is_space (rev s) @ dropWhile is_space (rev s))"
    by (simp only: rstrip_def rev_append)
  also have "\<dots> = s"
    by (simp only: takeWhile_dropWhile_id rev_rev_ident)
  finally have "s = rstrip s @ rev (takeWhile is_space (rev s))" by (rule sym)
  moreover have "list_all is_space (rev (takeWhile is_space (rev s)))"
    by (auto simp: list_all_iff dest: set_takeWhileD)
  ultimately show ?thesis by blast
qed

lemma lstrip_split: "\<exists>sp. s = sp @ lstrip s \<and> list_all is_space sp"
proof -
  have "s = takeWhile is_space s @ lstrip s" by (simp add: lstrip_def)
  moreover have "list_all is_space (takeWhile is_space s)"
    by (auto simp: list_all_iff dest: set_takeWhileD)
  ultimately show ?thesis by blast
qed

lemma word_runs_from_space_prefix:
  "list_all is_space sp \<Longrightarrow> word_runs_from [] (sp @ s) = word_runs_from [] s"
  by (induction sp) (simp_all add: space_not_word)

lemma word_runs_strip: "word_runs (strip s) = word_runs s"
proof -
  obtain sp1 where 1: "s = sp1 @ lstrip s" "list_all is_space sp1"
    using lstrip_split by blast
  obtain sp2 where 2: "lstrip s = strip s @ sp2" "list_all is_space sp2"
    using rstrip_split [of "lstrip s"] by (auto simp: strip_def)
  have n: "list_all (\<lambda>c. \<not> is_word c) sp2"
    using 2(2) by (auto simp: list_all_iff space_not_word)
  have "word_runs s = word_runs_from [] (sp1 @ lstrip s)"
    using 1(1) by (simp add: word_runs_def)
  also have "\<dots> = word_runs_from [] (lstrip s)"
    using 1(2) by (rule word_runs_from_space_prefix)
  also have "\<dots> = word_runs_from [] (strip s @ sp2)"
    using 2(1) by simp
  also have "\<dots> = word_runs_from [] (strip s)"
    using n by (rule word_runs_from_nonword_suffix)
  finally show ?thesis by (simp add: word_runs_def)
qed

lemma lstrip_rstrip_lstrip: "lstrip (rstrip (lstrip s)) = rstrip (lstrip s)"
proof (cases "lstrip s")
  case Nil
  then show ?thesis by (simp add: rstrip_def) (simp add: lstrip_def)
next
  case (Cons x t)
  then have nx: "\<not> is_space x"
    unfolding lstrip_def by (metis hd_dropWhile list.sel(1) list.distinct(1))
  have "dropWhile is_space (rev t @ [x]) =
      (if \<forall>c \<in> set (rev t). is_space c then [x] else dropWhile is_space (rev t) @ [x])"
    using nx by (simp add: dropWhile_append)
  then obtain u where "dropWhile is_space (rev (x # t)) = u @ [x]"
    by (cases "\<forall>c \<in> set (rev t). is_space c") auto
  then have "rstrip (x # t) = x # rev u" by (simp add: rstrip_def)
  with nx Cons show ?thesis by (simp add: lstrip_def)
qed

lemma strip_idem: "strip (strip s) = strip s"
proof -
  have "rstrip (rstrip t) = rstrip t" for t
    by (simp add: rstrip_def)
  then show ?thesis
    by (simp add: strip_def lstrip_rstrip_lstrip)
qed

text \<open>Collapsing whitespace.\<close>

lemma word_runs_sub_spaces_from:
  "(b \<longrightarrow> run = []) \<Longrightarrow>
   word_runs_from run (sub_spaces_from b s) = word_runs_from run s"
proof (induction s arbitrary: run b)
  case Nil
  then show ?case by simp
next
  case (Cons c s)
  show ?case
  proof (cases "is_space c")
    case True
    then have "\<not> is_word c" by (rule space_not_word)
    moreover have "\<not> is_word (CHR 0x20)" by (simp add: is_word_def)
    ultimately have nw: "\<not> is_word c" "\<not> is_word (CHR 0x20)" by blast+
    show ?thesis
    proof (cases b)
      case True
      with Cons.prems have "run = []" by simp
      with \<open>is_space c\<close> True nw Cons.IH [of True "[]"] show ?thesis by simp
    next
      case False
      with \<open>is_space c\<close> nw Cons.IH [of True "[]"] show ?thesis by simp
    qed
  next
    case False
    then show ?thesis using Cons.IH [of False] by simp
  qed
qed

lemma word_runs_sub_spaces: "word_runs (sub_spaces s) = word_runs s"
  unfolding word_runs_def sub_spaces_def
  by (rule word_runs_sub_spaces_from) simp

lemma collapsed_sub_spaces_from: "collapsed_from b (sub_spaces_from b s)"
proof (induction s arbitrary: b)
  case Nil
  then show ?case by simp
next
  case (Cons c s)
  have sp: "is_space (CHR 0x20)" by (simp add: is_space_def)
  show ?case
  proof (cases "is_space c")
    case True
    then show ?thesis using Cons [of True] sp by (cases b) simp_all
  next
    case False
    then show ?thesis using Cons [of False] by simp
  qed
qed

lemma sub_spaces_from_id: "collapsed_from b s \<Longrightarrow> sub_spaces_from b s = s"
  by (induction s arbitrary: b) (auto split: if_splits)

lemma collapsed_weaken: "collapsed_from True s \<Longrightarrow> collapsed_from False s"
  by (cases s) (auto split: if_splits)

lemma collapsed_prefix: "collapsed_from b (xs @ ys) \<Longrightarrow> collapsed_from b xs"
  by (induction xs arbitrary: b) (auto split: if_splits)

lemma collapsed_lstrip: "collapsed_from False s \<Longrightarrow> collapsed_from False (lstrip s)"
proof (cases s)
  case Nil
  then show ?thesis by (simp add: lstrip_def)
next
  case (Cons c cs)
  assume a: "collapsed_from False s"
  show ?thesis
  proof (cases "is_space c")
    case False
    with Cons a show ?thesis by (simp add: lstrip_def)
  next
    case True
    with Cons a have t: "collapsed_from True cs" by simp
    then have "dropWhile is_space cs = cs"
      by (cases cs) (auto split: if_splits)
    with True Cons t show ?thesis by (simp add: lstrip_def collapsed_weaken)
  qed
qed

lemma collapsed_strip: "collapsed_from False s \<Longrightarrow> collapsed_from False (strip s)"
proof -
  assume "collapsed_from False s"
  then have l: "collapsed_from False (lstrip s)" by (rule collapsed_lstrip)
  obtain sp where "lstrip s = strip s @ sp"
    using rstrip_split [of "lstrip s"] by (auto simp: strip_def)
  with l show ?thesis by (metis collapsed_prefix)
qed

lemma runs_after_removal:
  "t \<in> set (word_runs (foldl (\<lambda>s w. strip (sub_whole_word w s)) s ws)) \<Longrightarrow>
   t \<in> set (word_runs s) \<and> (\<forall>w \<in> set ws. lower t \<noteq> lower w)"
proof (induction ws arbitrary: s)
  case Nil
  then show ?case by simp
next
  case (Cons w ws)
  then have "t \<in> set (word_runs (foldl (\<lambda>s w. strip (sub_whole_word w s)) (strip (sub_whole_word w s)) ws))"
    by simp
  from Cons.IH [OF this]
  have "t \<in> set (word_runs (strip (sub_whole_word w s)))" and r: "\<forall>w \<in> set ws. lower t \<noteq> lower w"
    by blast+
  then have "t \<in> set (filter (\<lambda>t. lower t \<noteq> lower w) (word_runs s))"
    by (simp only: word_runs_strip word_runs_sub_whole_word)
  with r show ?case by simp
qed

lemma removal_fixpoint:
  assumes "\<forall>t \<in> set (word_runs y). \<forall>w \<in> set ws. lower t \<noteq> lower w" and "strip y = y"
  shows "foldl (\<lambda>s w. strip (sub_whole_word w s)) y ws = y"
  using assms(1)
proof (induction ws)
  case Nil
  then show ?case by simp
next
  case (Cons w ws)
  then have "\<forall>t \<in> set (word_runs y). lower t \<noteq> lower w" by simp
  then have "sub_whole_word w y = y" by (rule sub_whole_word_id)
  with assms(2) have "strip (sub_whole_word w y) = y" by simp
  with Cons show ?case by simp
qed

lemma cleanup_idem: "cleanup ws (cleanup ws s) = cleanup ws s"
proof -
  let ?z = "foldl (\<lambda>s w. strip (sub_whole_word w s)) s ws"
  let ?y = "strip (sub_spaces ?z)"
  have y: "cleanup ws s = ?y" by (simp add: cleanup_def)
  have runs: "word_runs ?y = word_runs ?z"
    by (simp only: word_runs_strip word_runs_sub_spaces)
  have "\<forall>t \<in> set (word_runs ?y). \<forall>w \<in> set ws. lower t \<noteq> lower w"
    unfolding runs using runs_after_removal [of _ s ws] by blast
  moreover have st: "strip ?y = ?y" by (rule strip_idem)
  ultimately have f: "foldl (\<lambda>s w. strip (sub_whole_word w s)) ?y ws = ?y"
    by (rule removal_fixpoint)
  have "collapsed_from False (sub_spaces ?z)"
    unfolding sub_spaces_def by (rule collapsed_sub_spaces_from)
  then have "collapsed_from False ?y" by (rule collapsed_strip)
  then have c: "sub_spaces ?y = ?y"
    unfolding sub_spaces_def by (rule sub_spaces_from_id)
  have "cleanup ws ?y = strip (sub_spaces (foldl (\<lambda>s w. strip (sub_whole_word w s)) ?y ws))"
    by (simp only: cleanup_def)
  also have "\<dots> = ?y" by (simp only: f c st)
  finally show ?thesis by (simp only: y)
qed

text \<open>
  C9: the clean-up of a captured name (the stop words removed as whole words without
  regard to case, whitespace collapsed, the ends stripped) gives the same string when it
  is applied a second time, for the stop-word list of the artist rule and for the list of
  the general duration rule.
\<close>

theorem cleanup_idempotent:
  "cleanup cleanup_words_with_artist (cleanup cleanup_words_with_artist s) =
     cleanup cleanup_words_with_artist s \<and>
   cleanup cleanup_words (cleanup cleanup_words s) = cleanup cleanup_words s"
  by (simp only: cleanup_idem)

theorem cleanup_idempotent_witness:
  "cleanup cleanup_words_with_artist ''stay  on the LONG-hot road, did 100'' = ''- road,'' \<and>
   cleanup cleanup_words_with_artist
     (cleanup cleanup_words_with_artist ''stay  on the LONG-hot road, did 100'') = ''- road,''"
proof -
  have v: "cleanup cleanup_words_with_artist ''stay  on the LONG-hot road, did 100'' = ''- road,''"
    by code_simp
  from cleanup_idempotent [of "''stay  on the LONG-hot road, did 100''"] v
  show ?thesis by simp
qed

section \<open>Where the intent parser raises\<close>























end
